theory Spec2Isabelle
  imports Main "HOL-Library.AList"
begin

section \<open>Python string primitives used by \<^verbatim>\<open>user_data.py\<close>\<close>

text \<open>
  Strings are byte lists. The helpers below follow the Python built-ins the script
  calls. Where Python consults Unicode tables, \<^verbatim>\<open>str.isspace\<close> is restricted to ASCII
  and \<^verbatim>\<open>str.lower\<close> is given for ASCII text only.
\<close>

definition LF :: char where
  "LF = CHR 0x0A"

definition CR :: char where
  "CR = CHR 0x0D"

definition NUL :: char where
  "NUL = CHR 0x00"

definition isspace :: "char \<Rightarrow> bool" where
  "isspace c = (c \<in> set [CHR 0x09, CHR 0x0A, CHR 0x0B, CHR 0x0C, CHR 0x0D,
                           CHR 0x1C, CHR 0x1D, CHR 0x1E, CHR 0x1F, CHR 0x20])"

text \<open>\<^verbatim>\<open>s.split()\<close>: maximal runs of non-whitespace characters.\<close>

fun split_ws :: "string \<Rightarrow> string \<Rightarrow> string list" where
  "split_ws cur [] = (if cur = [] then [] else [cur])"
| "split_ws cur (c # cs) =
     (if isspace c then (if cur = [] then split_ws [] cs else cur # split_ws [] cs)
      else split_ws (cur @ [c]) cs)"

definition py_split :: "string \<Rightarrow> string list" where
  "py_split s = split_ws [] s"

text \<open>\<^verbatim>\<open>s.strip()\<close>.\<close>

definition py_strip :: "string \<Rightarrow> string" where
  "py_strip s = rev (dropWhile isspace (rev (dropWhile isspace s)))"

text \<open>\<^verbatim>\<open>s.startswith(p)\<close> and \<^verbatim>\<open>sub in s\<close>.\<close>

definition startswith :: "string \<Rightarrow> string \<Rightarrow> bool" where
  "startswith s p = (take (length p) s = p)"

fun py_in :: "string \<Rightarrow> string \<Rightarrow> bool" where
  "py_in sub [] = (sub = [])"
| "py_in sub (c # cs) = (startswith (c # cs) sub \<or> py_in sub cs)"

text \<open>
  \<^verbatim>\<open>s.replace(old, new)\<close>: every non-overlapping occurrence of \<open>old\<close>, scanning from
  the left, is replaced.
\<close>

function py_replace :: "string \<Rightarrow> string \<Rightarrow> string \<Rightarrow> string" where
  "py_replace old new [] = (if old = [] then new else [])"
| "py_replace old new (c # cs) =
     (if old = [] then new @ c # py_replace old new cs
      else if startswith (c # cs) old
        then new @ py_replace old new (drop (length old) (c # cs))
      else c # py_replace old new cs)"
  by pat_completeness auto
termination
  by (relation "measure (\<lambda>(old, new, s). length s)") auto

text \<open>
  \<^verbatim>\<open>s.lower()\<close>: in ASCII text the letters A to Z are replaced. What Python makes of
  other text comes from the Unicode tables and is left open, as the parameter
  \<open>unicode_lower\<close>.
\<close>

definition lower_char :: "char \<Rightarrow> char" where
  "lower_char c =
     (case map_of (zip ''ABCDEFGHIJKLMNOPQRSTUVWXYZ'' ''abcdefghijklmnopqrstuvwxyz'') c of
        Some d \<Rightarrow> d
      | None \<Rightarrow> c)"

definition ascii :: "string \<Rightarrow> bool" where
  "ascii s = list_all (\<lambda>c. (of_char c :: nat) < 128) s"

definition lower :: "(string \<Rightarrow> string) \<Rightarrow> string \<Rightarrow> string" where
  "lower unicode_lower s = (if ascii s then map lower_char s else unicode_lower s)"

text \<open>\<^verbatim>\<open>s.split("\n")\<close> and \<^verbatim>\<open>sep.join(parts)\<close>.\<close>

fun split_on :: "char \<Rightarrow> string \<Rightarrow> string list" where
  "split_on sep [] = [[]]"
| "split_on sep (c # cs) =
     (if c = sep then [] # split_on sep cs
      else (case split_on sep cs of
              [] \<Rightarrow> [[c]]
            | l # ls \<Rightarrow> (c # l) # ls))"

fun join :: "string \<Rightarrow> string list \<Rightarrow> string" where
  "join sep [] = []"
| "join sep [x] = x"
| "join sep (x # y # ys) = x @ sep @ join sep (y # ys)"

text \<open>
  Reading a text file: \<^verbatim>\<open>open(path, "r")\<close> translates \<^verbatim>\<open>\r\n\<close> and \<^verbatim>\<open>\r\<close> to
  \<^verbatim>\<open>\n\<close>, and \<^verbatim>\<open>readlines()\<close> cuts after every \<^verbatim>\<open>\n\<close>, keeping it.
\<close>

fun universal_newlines :: "string \<Rightarrow> string" where
  "universal_newlines [] = []"
| "universal_newlines [c] = (if c = CR then [LF] else [c])"
| "universal_newlines (c # d # cs) =
     (if c = CR \<and> d = LF then LF # universal_newlines cs
      else if c = CR then LF # universal_newlines (d # cs)
      else c # universal_newlines (d # cs))"

fun keepends :: "string \<Rightarrow> string list" where
  "keepends [] = []"
| "keepends (c # cs) =
     (if c = LF then [LF] # keepends cs
      else (case keepends cs of
              [] \<Rightarrow> [[c]]
            | l # ls \<Rightarrow> (c # l) # ls))"

definition readlines :: "string \<Rightarrow> string list" where
  "readlines content = keepends (universal_newlines content)"

text \<open>\<^verbatim>\<open>str(n)\<close> for integers.\<close>

definition digit :: "nat \<Rightarrow> char" where
  "digit d = ''0123456789'' ! d"

fun str_nat :: "nat \<Rightarrow> string" where
  "str_nat n = (if n < 10 then [digit n] else str_nat (n div 10) @ [digit (n mod 10)])"

declare str_nat.simps [simp del]

definition str_int :: "int \<Rightarrow> string" where
  "str_int i = (if i < 0 then CHR ''-'' # str_nat (nat (- i)) else str_nat (nat i))"


section \<open>Data model\<close>

text \<open>
  JSON scalars that may occur as parameter values, and Python's \<^verbatim>\<open>str()\<close> of them
  (the same text an f-string inserts). Floating-point values are not modelled.
\<close>

datatype scalar = SStr string | SInt int | SBool bool | SNull

fun py_str :: "scalar \<Rightarrow> string" where
  "py_str (SStr s) = s"
| "py_str (SInt i) = str_int i"
| "py_str (SBool b) = (if b then ''True'' else ''False'')"
| "py_str SNull = ''None''"

text \<open>
  Python dictionaries are association lists in insertion order; a parsed JSON object has
  each key once. The catalog is a flat object alias \<open>\<rightarrow>\<close> URL, the parameter map an
  object alias \<open>\<rightarrow>\<close> (name \<open>\<rightarrow>\<close> scalar); JSON documents of any other shape are
  not modelled.
\<close>

type_synonym catalog = "(string \<times> string) list"
type_synonym params_map = "(string \<times> scalar) list"
type_synonym script_parameters = "(string \<times> params_map) list"

text \<open>The command-line arguments (\<^verbatim>\<open>args\<close>).\<close>

record args =
  arg_instance_name :: string
  arg_environment :: string
  arg_scripts_repository_url :: string
  arg_script_aliases :: string
  arg_script_parameters :: string
  arg_webhook_url :: string
  arg_init_script :: string

text \<open>
  One entry of \<^verbatim>\<open>script_status_report["scripts"]\<close> (or the \<^verbatim>\<open>"init_script"\<close> entry):
  a dictionary whose keys \<^verbatim>\<open>exit_code\<close>, \<^verbatim>\<open>output\<close> and \<^verbatim>\<open>error\<close> may be missing.
  Fields carry the prefix \<open>rec_\<close> (\<open>rep_\<close> in the report, \<open>fin_\<close> for the keys added when it is
  sent), so that the script's local variables keep their names.
\<close>

record script_record =
  rec_status :: string
  rec_exit_code :: "int option"
  rec_output :: "string option"
  rec_error :: "string option"
  rec_start_time :: string
  rec_end_time :: string

record report =
  rep_timestamp :: string
  rep_instance_name :: string
  rep_scripts :: "(string \<times> script_record) list"
  rep_repository_status :: "string option"
  rep_init_script :: "script_record option"

record final_report =
  base_report :: report
  fin_instance_id :: string
  fin_private_ip :: string
  fin_public_ip :: string

text \<open>
  Every call of \<^verbatim>\<open>subprocess.run\<close> is logged (bookkeeping of the model only): who asked
  \<^verbatim>\<open>run_command\<close> for it, when, the command line and the environment it ran under.
\<close>

datatype label = Startup | ForAlias string | ForInit

record run_event =
  run_label :: label
  run_tick :: nat
  run_cmd :: string
  run_env :: "string \<rightharpoonup> string"

text \<open>
  The outside world. Every interaction is indexed by the number of interactions made
  before it (\<open>tick\<close>), so the same request may be answered differently at different
  times. \<open>Inl msg\<close> is a raised exception with \<^verbatim>\<open>str(e) = msg\<close>. \<open>urlopen\<close> stands
  for the request, \<^verbatim>\<open>read()\<close> and \<^verbatim>\<open>decode('utf-8')\<close> together.
  \<^verbatim>\<open>json.loads\<close> appears twice, once per shape of document it is asked to parse;
  \<open>None\<close> is \<^verbatim>\<open>JSONDecodeError\<close>. \<open>open_script_file\<close> is \<^verbatim>\<open>open(script_file, "w")\<close> in
  \<^verbatim>\<open>download_script\<close>, the one file whose directory depends on the input (an alias such as
  \<^verbatim>\<open>x/y\<close> names a file in \<^verbatim>\<open>/tmp/scripts/x\<close>, which \<^verbatim>\<open>os.makedirs\<close> did not create):
  \<open>Some msg\<close> is the exception it raises. \<open>str_lower\<close> is \<^verbatim>\<open>str.lower\<close> on text that is not
  ASCII.
\<close>

record world =
  urlopen :: "nat \<Rightarrow> string \<Rightarrow> string + string"
  json_loads_catalog :: "string \<Rightarrow> catalog option"
  json_loads_parameters :: "string \<Rightarrow> script_parameters option"
  open_script_file :: "nat \<Rightarrow> string \<Rightarrow> string option"
  subprocess_run :: "nat \<Rightarrow> string \<Rightarrow> (string \<rightharpoonup> string) \<Rightarrow> string + (string \<times> string \<times> int)"
  str_lower :: "string \<Rightarrow> string"
  utcnow :: "nat \<Rightarrow> string"
  imds_token :: "nat \<Rightarrow> string + string"
  imds_metadata :: "nat \<Rightarrow> string \<Rightarrow> string \<Rightarrow> string + string"

text \<open>
  The state of the run: \<^verbatim>\<open>os.environ\<close>, the files the run wrote and their modes, the
  commands it started, the global \<^verbatim>\<open>script_status_report\<close> and the reports it posted.
  Writing to the files of fixed name (with \<^verbatim>\<open>os.makedirs\<close>), and to an output file next to
  a script file that has just been written, is taken to succeed; printing to the log is
  not modelled.
\<close>

record state =
  tick :: nat
  environ :: "string \<rightharpoonup> string"
  files :: "string \<rightharpoonup> string"
  modes :: "string \<rightharpoonup> nat"
  runs :: "run_event list"
  script_status_report :: report
  posted :: "(string \<times> final_report) list"

datatype outcome = SysExit int | Completed state

section \<open>The program\<close>

definition now :: "world \<Rightarrow> state \<Rightarrow> string \<times> state" where
  "now w s = (utcnow w (tick s), s\<lparr>tick := Suc (tick s)\<rparr>)"

text \<open>
  \<^verbatim>\<open>run_command\<close>: the command runs under the current \<^verbatim>\<open>os.environ\<close>; an exception of
  \<^verbatim>\<open>subprocess.run\<close> becomes empty output, the message as error output and exit code 1.
\<close>

definition run_result :: "string + (string \<times> string \<times> int) \<Rightarrow> string \<times> string \<times> int" where
  "run_result r = (case r of Inl e \<Rightarrow> ([], e, 1) | Inr res \<Rightarrow> res)"

definition run_command :: "world \<Rightarrow> label \<Rightarrow> string \<Rightarrow> state \<Rightarrow> (string \<times> string \<times> int) \<times> state" where
  "run_command w lbl command s =
     (run_result (subprocess_run w (tick s) command (environ s)),
      s\<lparr>tick := Suc (tick s),
        runs := runs s @ [\<lparr>run_label = lbl, run_tick = tick s, run_cmd = command,
                           run_env = environ s\<rparr>]\<rparr>)"

definition set_repository_status :: "string \<Rightarrow> state \<Rightarrow> state" where
  "set_repository_status v s =
     s\<lparr>script_status_report := (script_status_report s)\<lparr>rep_repository_status := Some v\<rparr>\<rparr>"

definition set_script :: "string \<Rightarrow> script_record \<Rightarrow> state \<Rightarrow> state" where
  "set_script alias r s =
     s\<lparr>script_status_report :=
         (script_status_report s)\<lparr>rep_scripts := AList.update alias r (rep_scripts (script_status_report s))\<rparr>\<rparr>"

definition write_file :: "string \<Rightarrow> string \<Rightarrow> state \<Rightarrow> state" where
  "write_file path content s = s\<lparr>files := (files s)(path \<mapsto> content)\<rparr>"

definition chmod :: "string \<Rightarrow> nat \<Rightarrow> state \<Rightarrow> state" where
  "chmod path m s = s\<lparr>modes := (modes s)(path \<mapsto> m)\<rparr>"

definition download_repository :: "world \<Rightarrow> string \<Rightarrow> state \<Rightarrow> catalog option \<times> state" where
  "download_repository w url s =
     (let s1 = s\<lparr>tick := Suc (tick s)\<rparr>
      in case urlopen w (tick s) url of
           Inl e \<Rightarrow> (None, set_repository_status ''failed'' s1)
         | Inr content \<Rightarrow>
             (let s2 = write_file ''/tmp/scripts/repository.json'' content s1;
                  s3 = set_repository_status ''success'' s2
              in case json_loads_catalog w content of
                   Some repository \<Rightarrow> (Some repository, s3)
                 | None \<Rightarrow> (None, set_repository_status ''failed'' s3)))"

definition param_helper :: string where
  \<open>param_helper =
     ''#!/bin/bash\<newline>'' @
     ''# Parameter parsing helper\<newline>'' @
     ''parse_parameters() {\<newline>'' @
     ''    # Initialize variables to default values\<newline>'' @
     ''    local params=()\<newline>'' @
     ''    \<newline>'' @
     ''    # Loop through all command line arguments\<newline>'' @
     ''    while [[ $# -gt 0 ]]; do\<newline>'' @
     ''        key="$1"\<newline>'' @
     ''        case $key in\<newline>'' @
     ''            --*) # Handle parameters in format --param-name value\<newline>'' @
     ''                param_name="${key#--}"  # Remove -- prefix\<newline>'' @
     ''                param_name="${param_name//-/_}"  # Convert hyphens to underscores\<newline>'' @
     ''                param_name=$(echo "$param_name" | tr '[:lower:]' '[:upper:]')  # Convert to uppercase\<newline>'' @
     ''                if [[ -z "$2" || "$2" == --* ]]; then\<newline>'' @
     ''                    # Parameter with no value (flag)\<newline>'' @
     ''                    declare -g "$param_name"="true"\<newline>'' @
     ''                else\<newline>'' @
     ''                    # Parameter with value\<newline>'' @
     ''                    declare -g "$param_name"="$2"\<newline>'' @
     ''                    shift  # Extra shift for the value\<newline>'' @
     ''                fi\<newline>'' @
     ''                ;;\<newline>'' @
     ''            *) # Collect positional parameters\<newline>'' @
     ''                params+=("$1")\<newline>'' @
     ''                ;;\<newline>'' @
     ''        esac\<newline>'' @
     ''        shift\<newline>'' @
     ''    done\<newline>'' @
     ''    \<newline>'' @
     ''    # Make positional parameters available as PARAM1, PARAM2, etc.\<newline>'' @
     ''    for i in "${!params[@]}"; do\<newline>'' @
     ''        declare -g "PARAM$((i+1))"="${params[$i]}"\<newline>'' @
     ''    done\<newline>'' @
     ''    \<newline>'' @
     ''    # For backward compatibility\<newline>'' @
     ''    # If environment variables are set but not command line parameters, we still want to use them\<newline>'' @
     ''    # This enables both styles of passing parameters\<newline>'' @
     ''}\<newline>'' @
     ''\<newline>'' @
     ''# Parse parameters automatically\<newline>'' @
     ''parse_parameters "$@"\<newline>'' @
     ''\<newline>'' @
     ''# Original script follows\<newline>''\<close>

text \<open>\<^verbatim>\<open>param_helper.split('\n', 1)[1]\<close>: everything after the first line break.\<close>

definition param_helper_without_shebang :: string where
  "param_helper_without_shebang =
     drop (Suc (length (takeWhile (\<lambda>c. c \<noteq> LF) param_helper))) param_helper"

text \<open>The text \<^verbatim>\<open>download_script\<close> writes to the script file.\<close>

definition artifact :: "string \<Rightarrow> string" where
  "artifact script_content =
     (if startswith script_content ''#!'' then
        (let shebang_line = split_on LF script_content ! 0;
             rest_of_script = join [LF] (drop 1 (split_on LF script_content))
         in shebang_line @ [LF] @ param_helper_without_shebang @ rest_of_script)
      else param_helper @ script_content)"

definition script_path :: "string \<Rightarrow> string" where
  "script_path alias = ''/tmp/scripts/'' @ alias @ ''.sh''"

text \<open>
  \<open>Inl e\<close>: the exception, of the download or of opening the script file, is printed and
  raised again.
\<close>

definition download_script :: "world \<Rightarrow> string \<Rightarrow> string \<Rightarrow> state \<Rightarrow> (string + string) \<times> state" where
  "download_script w alias script_url s =
     (let script_file = script_path alias;
          s1 = s\<lparr>tick := Suc (tick s)\<rparr>
      in case urlopen w (tick s) script_url of
           Inl e \<Rightarrow> (Inl e, s1)
         | Inr script_content \<Rightarrow>
             (let s2 = s1\<lparr>tick := Suc (tick s1)\<rparr>
              in case open_script_file w (tick s1) script_file of
                   Some e \<Rightarrow> (Inl e, s2)
                 | None \<Rightarrow>
                     (Inr script_file,
                      chmod script_file 493 (write_file script_file (artifact script_content) s2))))"


text \<open>
  \<^verbatim>\<open>os.environ[name] = value\<close> raises for a name or value the operating system cannot
  take: \<^verbatim>\<open>ValueError\<close> for a NUL byte in either and for \<^verbatim>\<open>=\<close> in the name, \<^verbatim>\<open>OSError\<close> for
  the empty name (the messages are those of CPython 3.11 on Linux).
\<close>

definition putenv_error :: "string \<Rightarrow> string \<Rightarrow> string option" where
  "putenv_error name val =
     (if NUL \<in> set name \<or> NUL \<in> set val then Some ''embedded null byte''
      else if CHR ''='' \<in> set name then Some ''illegal environment variable name''
      else if name = [] then Some ''[Errno 22] Invalid argument''
      else None)"

text \<open>
  The loop of \<^verbatim>\<open>execute_script\<close> over \<^verbatim>\<open>params_map.items()\<close>: each parameter is put into
  \<^verbatim>\<open>os.environ\<close> under its own name and appended to \<^verbatim>\<open>param_args\<close> as a flag. The first
  assignment that raises ends the loop (\<open>Inl\<close>); the assignments made before it stay.
\<close>

definition kebab :: "world \<Rightarrow> string \<Rightarrow> string" where
  "kebab w param_name = py_replace ''_'' ''-'' (lower (str_lower w) param_name)"

definition flag_token :: "world \<Rightarrow> string \<Rightarrow> scalar \<Rightarrow> string" where
  \<open>flag_token w param_name param_value =
     ''--'' @ kebab w param_name @ ''="'' @ py_str param_value @ ''"''\<close>

fun bind_params :: "world \<Rightarrow> params_map \<Rightarrow> string \<times> (string \<rightharpoonup> string) \<Rightarrow> (string + string) \<times> (string \<rightharpoonup> string)" where
  "bind_params w [] (param_args, env) = (Inr param_args, env)"
| "bind_params w ((param_name, param_value) # ps) (param_args, env) =
     (case putenv_error param_name (py_str param_value) of
        Some e \<Rightarrow> (Inl e, env)
      | None \<Rightarrow>
          bind_params w ps (param_args @ '' '' @ flag_token w param_name param_value,
                            env(param_name \<mapsto> py_str param_value)))"

text \<open>What is written to an output file, and the part of it that goes into the report.\<close>

definition captured :: "string \<Rightarrow> string \<Rightarrow> string" where
  "captured stdout stderr =
     stdout @ (if stderr \<noteq> [] then [LF, LF] @ ''STDERR:'' @ [LF] @ stderr else [])"

definition first_lines :: "string \<Rightarrow> string" where
  "first_lines content = concat (take 20 (readlines content))"

text \<open>Reading back a file that was just written (it cannot be missing).\<close>

definition read_first_lines :: "string \<Rightarrow> state \<Rightarrow> string" where
  "read_first_lines path s = (case files s path of Some content \<Rightarrow> first_lines content | None \<Rightarrow> [])"

definition output_path :: "string \<Rightarrow> string" where
  "output_path alias = ''/tmp/scripts/'' @ alias @ ''_output.txt''"

text \<open>\<open>Inl e\<close>: the exception of the parameter loop leaves \<^verbatim>\<open>execute_script\<close>; nothing is run.\<close>

definition execute_script :: "world \<Rightarrow> string \<Rightarrow> string \<Rightarrow> params_map \<Rightarrow> state \<Rightarrow> (string + int \<times> string) \<times> state" where
  "execute_script w alias script_file params_map s =
     (case bind_params w params_map ([], environ s) of
        (Inl e, env) \<Rightarrow> (Inl e, s\<lparr>environ := env\<rparr>)
      | (Inr param_args, env) \<Rightarrow>
          (let s1 = s\<lparr>environ := env\<rparr>;
               script_output_file = output_path alias;
               cmd = script_file @ param_args;
               ((stdout, stderr, exit_code), s2) = run_command w (ForAlias alias) cmd s1;
               s3 = write_file script_output_file (captured stdout stderr) s2;
               script_output = read_first_lines script_output_file s3
           in (Inr (exit_code, script_output), s3)))"

text \<open>
  The body of the loop over the aliases in \<^verbatim>\<open>download_and_execute_scripts\<close>. Its
  \<^verbatim>\<open>except Exception\<close> turns whatever \<^verbatim>\<open>download_script\<close> or \<^verbatim>\<open>execute_script\<close> raised into
  the record of the alias.
\<close>

definition convert_github_url :: "string \<Rightarrow> string" where
  "convert_github_url script_url =
     (if script_url \<noteq> [] \<and> py_in ''github.com'' script_url
         \<and> \<not> py_in ''raw.githubusercontent.com'' script_url
      then py_replace ''/blob/'' ''/'' (py_replace ''github.com'' ''raw.githubusercontent.com'' script_url)
      else script_url)"

definition error_record :: "string \<Rightarrow> string \<Rightarrow> string \<Rightarrow> script_record" where
  "error_record msg t0 t1 =
     \<lparr>rec_status = ''error'', rec_exit_code = None, rec_output = None, rec_error = Some msg,
      rec_start_time = t0, rec_end_time = t1\<rparr>"

definition result_record :: "int \<Rightarrow> string \<Rightarrow> string \<Rightarrow> string \<Rightarrow> script_record" where
  "result_record code out t0 t1 =
     \<lparr>rec_status = (if code = 0 then ''success'' else ''failed''), rec_exit_code = Some code,
      rec_output = Some out, rec_error = None, rec_start_time = t0, rec_end_time = t1\<rparr>"

text \<open>\<^verbatim>\<open>script_parameters.get(alias, {})\<close>.\<close>

definition get_params :: "script_parameters \<Rightarrow> string \<Rightarrow> params_map" where
  "get_params script_parameters alias =
     (case map_of script_parameters alias of Some m \<Rightarrow> m | None \<Rightarrow> [])"

definition no_url :: "world \<Rightarrow> string \<Rightarrow> string \<Rightarrow> state \<Rightarrow> state" where
  "no_url w alias start_time s =
     (let (end_time, s1) = now w s
      in set_script alias (error_record ''No URL found for alias'' start_time end_time) s1)"

definition process_alias :: "world \<Rightarrow> catalog \<Rightarrow> script_parameters \<Rightarrow> string \<Rightarrow> state \<Rightarrow> state" where
  "process_alias w repository script_parameters alias s =
     (let (start_time, s1) = now w s
      in case map_option convert_github_url (map_of repository alias) of
           None \<Rightarrow> no_url w alias start_time s1
         | Some script_url \<Rightarrow>
             if script_url = [] then no_url w alias start_time s1
             else
               (case download_script w alias script_url s1 of
                  (Inl e, s2) \<Rightarrow>
                    (let (end_time, s3) = now w s2
                     in set_script alias (error_record e start_time end_time) s3)
                | (Inr script_file, s2) \<Rightarrow>
                    (let script_params_map = get_params script_parameters alias
                     in case execute_script w alias script_file script_params_map s2 of
                          (Inl e, s3) \<Rightarrow>
                            (let (end_time, s4) = now w s3
                             in set_script alias (error_record e start_time end_time) s4)
                        | (Inr (exit_code, script_output), s3) \<Rightarrow>
                            (let (end_time, s4) = now w s3
                             in set_script alias
                                  (result_record exit_code script_output start_time end_time) s4))))"

fun process_aliases :: "world \<Rightarrow> catalog \<Rightarrow> script_parameters \<Rightarrow> string list \<Rightarrow> state \<Rightarrow> state" where
  "process_aliases w repository script_parameters [] s = s"
| "process_aliases w repository script_parameters (alias # aliases) s =
     process_aliases w repository script_parameters aliases
       (process_alias w repository script_parameters alias s)"

definition download_and_execute_scripts :: "world \<Rightarrow> args \<Rightarrow> state \<Rightarrow> state" where
  "download_and_execute_scripts w a s =
     (if arg_scripts_repository_url a = [] then s
      else if arg_script_aliases a = [] then s
      else
        (case download_repository w (arg_scripts_repository_url a) s of
           (None, s1) \<Rightarrow> s1
         | (Some repository, s1) \<Rightarrow>
             if repository = [] then s1
             else
               (let script_parameters =
                      (case json_loads_parameters w (arg_script_parameters a) of
                         Some p \<Rightarrow> p
                       | None \<Rightarrow> [])
                in process_aliases w repository script_parameters
                     (py_split (arg_script_aliases a)) s1)))"

text \<open>The custom init script (module level, after the aliases).\<close>

definition run_init_script :: "world \<Rightarrow> args \<Rightarrow> state \<Rightarrow> state" where
  "run_init_script w a s =
     (let init_script_content = arg_init_script a
      in if py_strip init_script_content \<noteq> [] then
           (let s1 = chmod ''/tmp/custom_init.sh'' 493
                       (write_file ''/tmp/custom_init.sh'' init_script_content s);
                (init_start_time, s2) = now w s1;
                ((stdout, stderr, init_exit_code), s3) =
                  run_command w ForInit ''/tmp/custom_init.sh'' s2;
                (init_end_time, s4) = now w s3;
                s5 = write_file ''/tmp/init_script_output.txt'' (captured stdout stderr) s4;
                init_output = read_first_lines ''/tmp/init_script_output.txt'' s5
            in s5\<lparr>script_status_report :=
                    (script_status_report s5)\<lparr>rep_init_script :=
                       Some (result_record init_exit_code init_output init_start_time init_end_time)\<rparr>\<rparr>)
         else s)"

text \<open>Publishing the report.\<close>

definition get_instance_metadata :: "world \<Rightarrow> string \<Rightarrow> string \<Rightarrow> state \<Rightarrow> string \<times> state" where
  "get_instance_metadata w field token s =
     (let s1 = s\<lparr>tick := Suc (tick s)\<rparr>
      in case imds_metadata w (tick s) field token of
           Inr v \<Rightarrow> (v, s1)
         | Inl e \<Rightarrow> (if field \<noteq> ''public-ipv4'' then ''unknown'' else ''N/A'', s1))"

definition send_status_report :: "world \<Rightarrow> args \<Rightarrow> state \<Rightarrow> state" where
  "send_status_report w a s =
     (let webhook_url = arg_webhook_url a
      in if webhook_url = [] then s
         else
           (let s1 = s\<lparr>tick := Suc (tick s)\<rparr>
            in case imds_token w (tick s) of
                 Inl e \<Rightarrow> s1
               | Inr token \<Rightarrow>
                   (let (instance_id, s2) = get_instance_metadata w ''instance-id'' token s1;
                        (private_ip, s3) = get_instance_metadata w ''local-ipv4'' token s2;
                        (public_ip, s4) = get_instance_metadata w ''public-ipv4'' token s3;
                        final_report =
                          \<lparr>base_report = script_status_report s4, fin_instance_id = instance_id,
                           fin_private_ip = private_ip, fin_public_ip = public_ip\<rparr>
                    in s4\<lparr>tick := Suc (tick s4),
                          posted := posted s4 @ [(webhook_url, final_report)]\<rparr>)))"

text \<open>Module level: installing the tools, then the pipeline.\<close>

definition startup :: "world \<Rightarrow> state \<Rightarrow> state option" where
  "startup w s =
     (let (r1, s1) = run_command w Startup ''apt-get -qq update -y'' s;
          (r2, s2) = run_command w Startup ''apt-get -qq install -y openssh-client curl wget jq'' s1;
          ((stdout, stderr, exit_code), s3) = run_command w Startup ''which jq'' s2
      in if exit_code \<noteq> 0 then
           (let (r4, s4) = run_command w Startup ''apt-get install -y jq'' s3;
                ((stdout, stderr, exit_code), s5) = run_command w Startup ''which jq'' s4
            in if exit_code \<noteq> 0 then None else Some s5)
         else Some s3)"

text \<open>The blocks of the module after the tools are installed, in their order.\<close>

definition initialize_report :: "world \<Rightarrow> args \<Rightarrow> state \<Rightarrow> state" where
  "initialize_report w a s =
     (let (timestamp, s1) = now w s
      in s1\<lparr>script_status_report :=
              \<lparr>rep_timestamp = timestamp, rep_instance_name = arg_instance_name a, rep_scripts = [],
               rep_repository_status = None, rep_init_script = None\<rparr>\<rparr>)"

definition script_stage :: "world \<Rightarrow> args \<Rightarrow> state \<Rightarrow> state" where
  "script_stage w a s =
     (if arg_scripts_repository_url a \<noteq> [] \<and> arg_script_aliases a \<noteq> []
      then download_and_execute_scripts w a s else s)"

definition signal_completion :: "state \<Rightarrow> state" where
  "signal_completion s = write_file ''/tmp/user_data_complete'' [] s"

definition publish :: "world \<Rightarrow> args \<Rightarrow> state \<Rightarrow> state" where
  "publish w a s = (if arg_webhook_url a \<noteq> [] then send_status_report w a s else s)"

definition pipeline :: "world \<Rightarrow> args \<Rightarrow> state \<Rightarrow> state" where
  "pipeline w a s =
     publish w a
       (signal_completion
          (run_init_script w a
             (script_stage w a
                (initialize_report w a s))))"

definition initial_state :: "(string \<rightharpoonup> string) \<Rightarrow> state" where
  "initial_state env =
     \<lparr>tick = 0, environ = env, files = Map.empty, modes = Map.empty, runs = [],
      script_status_report =
        \<lparr>rep_timestamp = [], rep_instance_name = [], rep_scripts = [], rep_repository_status = None,
         rep_init_script = None\<rparr>,
      posted = []\<rparr>"

definition main :: "world \<Rightarrow> args \<Rightarrow> (string \<rightharpoonup> string) \<Rightarrow> outcome" where
  "main w a env =
     (case startup w (initial_state env) of
        None \<Rightarrow> SysExit 1
      | Some s \<Rightarrow> Completed (pipeline w a s))"


section \<open>The argument-parsing preamble\<close>

text \<open>
  \<^verbatim>\<open>param_helper\<close> is a bash function, \<^verbatim>\<open>parse_parameters "$@"\<close>. Its effect on the shell
  variables is modelled on the argument vector it receives, for bash 5.2 and as far as
  the outcome depends on the script alone; \<open>None\<close> stands for a run the model does not
  follow.

  \<^verbatim>\<open>declare -g "$n"="$v"\<close> hands bash the single word \<open>n=v\<close>, which bash cuts at its first
  \<^verbatim>\<open>=\<close>. A name part that is not an identifier is refused (\<^verbatim>\<open>not a valid identifier\<close>) and
  binds nothing, except that \<^verbatim>\<open>declare\<close> also understands the forms \<^verbatim>\<open>n+=v\<close> and \<^verbatim>\<open>n[i]=v\<close>,
  which are not followed, and that what \<^verbatim>\<open>tr\<close> and bash make of a byte outside ASCII
  depends on the locale, so such a name is not followed either. Neither is the assignment of a variable that bash keeps for
  itself (read-only ones such as \<^verbatim>\<open>UID\<close>, dynamic ones such as \<^verbatim>\<open>RANDOM\<close> and \<^verbatim>\<open>_\<close>, whose
  value is not what was assigned) or that changes how the rest of the function runs
  (\<^verbatim>\<open>PATH\<close>, under which \<^verbatim>\<open>tr\<close> is looked up, the locale and the loader variables under
  which it runs, the mode switches of bash). \<^verbatim>\<open>tr\<close> is taken to be installed and found under the \<^verbatim>\<open>PATH\<close> with which
  the artifact is started; it maps the ASCII letters. \<^verbatim>\<open>key\<close>, \<^verbatim>\<open>param_name\<close> and the loop
  variable \<^verbatim>\<open>i\<close> are not declared local, so the function leaves them set as well.
\<close>

definition upper_char :: "char \<Rightarrow> char" where
  "upper_char c =
     (case map_of (zip ''abcdefghijklmnopqrstuvwxyz'' ''ABCDEFGHIJKLMNOPQRSTUVWXYZ'') c of
        Some d \<Rightarrow> d
      | None \<Rightarrow> c)"

definition upper :: "string \<Rightarrow> string" where
  "upper s = map upper_char s"

definition name_start :: "char \<Rightarrow> bool" where
  "name_start c = (c \<in> set ''abcdefghijklmnopqrstuvwxyzABCDEFGHIJKLMNOPQRSTUVWXYZ_'')"

definition name_char :: "char \<Rightarrow> bool" where
  "name_char c = (name_start c \<or> c \<in> set ''0123456789'')"

fun shell_identifier :: "string \<Rightarrow> bool" where
  "shell_identifier [] = False"
| "shell_identifier (c # cs) = (name_start c \<and> list_all name_char cs)"

definition bash_special :: "string list" where
  "bash_special =
     [''_'', ''BASHOPTS'', ''BASHPID'', ''BASH_ALIASES'', ''BASH_ARGC'', ''BASH_ARGV'', ''BASH_ARGV0'',
      ''BASH_CMDS'', ''BASH_COMMAND'', ''BASH_LINENO'', ''BASH_REMATCH'', ''BASH_SOURCE'',
      ''BASH_SUBSHELL'', ''BASH_VERSINFO'', ''COLUMNS'', ''COMP_WORDBREAKS'', ''DIRSTACK'',
      ''EPOCHREALTIME'', ''EPOCHSECONDS'', ''EUID'', ''FUNCNAME'', ''GROUPS'', ''HISTCMD'', ''LINENO'',
      ''LINES'', ''PIPESTATUS'', ''PPID'', ''RANDOM'', ''SECONDS'', ''SHELLOPTS'', ''SRANDOM'', ''UID'']"

definition bash_control :: "string list" where
  "bash_control = [''PATH'', ''LANG'', ''LANGUAGE'', ''LOCPATH'', ''POSIXLY_CORRECT'']"

definition reserved :: "string \<Rightarrow> bool" where
  "reserved name =
     (name \<in> set bash_special \<or> name \<in> set bash_control
      \<or> startswith name ''LC_'' \<or> startswith name ''LD_'' \<or> startswith name ''BASH'')"

definition declare_g :: "string \<Rightarrow> (string \<rightharpoonup> string) \<Rightarrow> (string \<rightharpoonup> string) option" where
  "declare_g word vars =
     (let name = takeWhile (\<lambda>c. c \<noteq> CHR ''='') word;
          val = drop (Suc (length name)) word
      in if shell_identifier name
         then (if reserved name then None else Some (vars(name \<mapsto> val)))
         else (if CHR ''+'' \<in> set name \<or> CHR ''['' \<in> set name
                  \<or> list_ex (\<lambda>c. 128 \<le> (of_char c :: nat)) name
               then None else Some vars))"

text \<open>\<^verbatim>\<open>$(...)\<close> drops the line breaks at the end of what the command printed.\<close>

definition command_substitution :: "string \<Rightarrow> string" where
  "command_substitution s = rev (dropWhile (\<lambda>c. c = LF) (rev s))"

text \<open>The \<^verbatim>\<open>while [[ $# -gt 0 ]]\<close> loop; the argument list is \<^verbatim>\<open>"$@"\<close>.\<close>

fun parse_loop :: "string list \<Rightarrow> (string \<rightharpoonup> string) \<Rightarrow> string list \<Rightarrow> ((string \<rightharpoonup> string) \<times> string list) option" where
  "parse_loop [] vars params = Some (vars, params)"
| "parse_loop (key # rest) vars params =
     (let vars1 = vars(''key'' \<mapsto> key)
      in if startswith key ''--'' then
           (let param_name = command_substitution (upper (py_replace ''-'' ''_'' (drop 2 key)));
                vars2 = vars1(''param_name'' \<mapsto> param_name)
            in if (case rest of [] \<Rightarrow> True | v # rest' \<Rightarrow> v = [] \<or> startswith v ''--'')
               then (case declare_g (param_name @ ''=true'') vars2 of
                       None \<Rightarrow> None
                     | Some vars3 \<Rightarrow> parse_loop rest vars3 params)
               else (case declare_g (param_name @ ''='' @ rest ! 0) vars2 of
                       None \<Rightarrow> None
                     | Some vars3 \<Rightarrow> parse_loop (drop 1 rest) vars3 params))
         else parse_loop rest vars1 (params @ [key]))"

text \<open>The \<^verbatim>\<open>for i in "${!params[@]}"\<close> loop, from index \<open>i\<close> on.\<close>

fun declare_params :: "nat \<Rightarrow> string list \<Rightarrow> (string \<rightharpoonup> string) \<Rightarrow> (string \<rightharpoonup> string) option" where
  "declare_params i [] vars = Some vars"
| "declare_params i (p # ps) vars =
     (case declare_g (''PARAM'' @ str_nat (i + 1) @ ''='' @ p) (vars(''i'' \<mapsto> str_nat i)) of
        None \<Rightarrow> None
      | Some vars1 \<Rightarrow> declare_params (Suc i) ps vars1)"

definition parse_parameters :: "string list \<Rightarrow> (string \<rightharpoonup> string) \<Rightarrow> (string \<rightharpoonup> string) option" where
  "parse_parameters argv vars =
     (case parse_loop argv vars [] of
        None \<Rightarrow> None
      | Some (vars1, params) \<Rightarrow> declare_params 0 params vars1)"

text \<open>
  An artifact is started by the interpreter that its first line names, and the preamble
  is written for bash: under another shell (\<^verbatim>\<open>/bin/sh\<close> is dash on Debian and Ubuntu) it
  need not even parse. Only an artifact whose first line is \<^verbatim>\<open>#!/bin/bash\<close> is followed;
  this is the line of every artifact made from a body without a directive. The result is
  the shell variables with which the body starts.
\<close>

definition interpreter_line :: "string \<Rightarrow> string" where
  "interpreter_line script_text = takeWhile (\<lambda>c. c \<noteq> LF) script_text"

definition run_preamble :: "string \<Rightarrow> string list \<Rightarrow> (string \<rightharpoonup> string) \<Rightarrow> (string \<rightharpoonup> string) option" where
  "run_preamble script_text argv vars =
     (if interpreter_line script_text = ''#!/bin/bash'' then parse_parameters argv vars else None)"


section \<open>A concrete run\<close>

text \<open>
  A small world and command line on which the properties below are evaluated.
\<close>

definition demo_catalog_text :: string where
  \<open>demo_catalog_text = ''{"a": "https://github.com/o/r/blob/main/a.sh", "b": "http://repo/b.sh"}''\<close>

definition demo_catalog :: catalog where
  "demo_catalog = [(''a'', ''https://github.com/o/r/blob/main/a.sh''), (''b'', ''http://repo/b.sh'')]"

definition demo_parameters_text :: string where
  \<open>demo_parameters_text = ''{"a": {"FOO": "1", "retry_count": 3}}''\<close>

definition demo_parameters :: script_parameters where
  "demo_parameters = [(''a'', [(''FOO'', SStr ''1''), (''retry_count'', SInt 3)])]"

definition demo_stdout_a :: string where
  "demo_stdout_a = concat (replicate 25 (''line'' @ [LF]))"

definition demo_world :: world where
  "demo_world =
     \<lparr>urlopen = (\<lambda>t url.
        if url = ''http://repo/catalog.json'' then Inr demo_catalog_text
        else if url = ''http://repo/empty.json'' then Inr ''{}''
        else if url = ''http://repo/broken.json'' then Inr ''<html>''
        else if url = ''https://raw.githubusercontent.com/o/r/main/a.sh''
          then Inr (''#!/bin/sh'' @ [LF] @ ''echo a'')
        else if url = ''http://repo/b.sh'' then Inr ''echo $FOO; exit 3''
        else Inl ''HTTP Error 404: Not Found''),
      json_loads_catalog = (\<lambda>content.
        if content = demo_catalog_text then Some demo_catalog
        else if content = ''{}'' then Some []
        else None),
      json_loads_parameters = (\<lambda>content.
        if content = demo_parameters_text then Some demo_parameters
        else if content = ''{}'' then Some []
        else None),
      open_script_file = (\<lambda>t path.
        if path = ''/tmp/scripts/x/y.sh''
        then Some (''[Errno 2] No such file or directory: '' @ [CHR 0x27] @ path @ [CHR 0x27])
        else None),
      subprocess_run = (\<lambda>t cmd env.
        if startswith cmd ''/tmp/scripts/a.sh'' then Inr (demo_stdout_a, ''warning'', 0)
        else if cmd = ''/tmp/scripts/b.sh''
          then Inr ((case env ''FOO'' of Some v \<Rightarrow> v | None \<Rightarrow> []) @ [LF], [], 3)
        else if cmd = ''/tmp/custom_init.sh'' then Inr (''ready'' @ [LF], ''not found'', 2)
        else Inr ([], [], 0)),
      str_lower = (\<lambda>s. s),
      utcnow = (\<lambda>t. ''2024-01-01T00:00:00Z''),
      imds_token = (\<lambda>t. Inr ''token''),
      imds_metadata = (\<lambda>t field token.
        if field = ''instance-id'' then Inr ''i-0abc'' else Inl ''timed out'')\<rparr>"

definition demo_args :: args where
  "demo_args =
     \<lparr>arg_instance_name = ''web-1'', arg_environment = ''prod'',
      arg_scripts_repository_url = ''http://repo/catalog.json'',
      arg_script_aliases = ''a b c'',
      arg_script_parameters = demo_parameters_text,
      arg_webhook_url = ''http://hook/status'',
      arg_init_script = ''echo hi''\<rparr>"




section \<open>Properties\<close>

subsection \<open>Lines and line breaks\<close>

lemma split_on_nonempty: "split_on sep s \<noteq> []"
  by (induction s) (auto split: list.splits)

lemma split_on_first: "split_on sep s ! 0 = takeWhile (\<lambda>c. c \<noteq> sep) s"
  by (induction s) (auto split: list.splits simp: split_on_nonempty)

lemma join_split_on: "join [sep] (split_on sep s) = s"
proof (induction s)
  case Nil
  show ?case by simp
next
  case (Cons c cs)
  obtain l ls where sp: "split_on sep cs = l # ls"
    using split_on_nonempty [of sep cs] by (cases "split_on sep cs") auto
  show ?case
  proof (cases "c = sep")
    case True
    with Cons sp show ?thesis by simp
  next
    case False
    with Cons sp show ?thesis by (cases ls) auto
  qed
qed

lemma join_rest_split_on:
  "join [sep] (drop 1 (split_on sep s)) = drop (Suc (length (takeWhile (\<lambda>c. c \<noteq> sep) s))) s"
proof (induction s)
  case Nil
  show ?case by simp
next
  case (Cons c cs)
  obtain l ls where sp: "split_on sep cs = l # ls"
    using split_on_nonempty [of sep cs] by (cases "split_on sep cs") auto
  show ?case
  proof (cases "c = sep")
    case True
    then show ?thesis by (simp add: join_split_on)
  next
    case False
    with Cons sp show ?thesis by simp
  qed
qed

lemma param_helper_split:
  "param_helper = ''#!/bin/bash'' @ [LF] @ param_helper_without_shebang"
  unfolding param_helper_without_shebang_def param_helper_def LF_def by simp


subsection \<open>The materialized artifact\<close>




subsection \<open>Rewriting catalog URLs\<close>

lemma convert_github_url_page:
  "convert_github_url ''https://github.com/o/r/blob/main/x.sh''
     = ''https://raw.githubusercontent.com/o/r/main/x.sh''"
  by (simp add: convert_github_url_def startswith_def)

lemma convert_github_url_raw:
  "py_in ''raw.githubusercontent.com'' script_url \<Longrightarrow> convert_github_url script_url = script_url"
  by (simp add: convert_github_url_def)

lemma convert_github_url_elsewhere:
  "\<not> py_in ''github.com'' script_url \<Longrightarrow> convert_github_url script_url = script_url"
  by (simp add: convert_github_url_def)

text \<open>
  Claim C9. \<^verbatim>\<open>replace\<close> rewrites every occurrence, not only the hosting-page segment: a
  page URL whose path has a directory named \<^verbatim>\<open>blob\<close> below the branch loses that
  directory too, and the rewritten URL names another file.
\<close>

theorem convert_github_url_nested_blob:
  "convert_github_url ''https://github.com/o/r/blob/main/blob/x.sh''
     = ''https://raw.githubusercontent.com/o/r/main/x.sh''"
  by (simp add: convert_github_url_def startswith_def)

subsection \<open>Paths\<close>

lemma script_path_inj [simp]: "script_path a = script_path b \<longleftrightarrow> a = b"
  by (simp add: script_path_def)

lemma output_path_inj [simp]: "output_path a = output_path b \<longleftrightarrow> a = b"
  by (simp add: output_path_def)

lemma script_path_neq_output_path [simp]: "script_path a \<noteq> output_path b"
proof
  assume "script_path a = output_path b"
  then have "last (script_path a) = last (output_path b)" by simp
  then show False by (simp add: script_path_def output_path_def)
qed

lemma output_path_neq_script_path [simp]: "output_path a \<noteq> script_path b"
  using script_path_neq_output_path [of b a] by (rule not_sym)

lemma script_path_neq_repository [simp]: "script_path a \<noteq> ''/tmp/scripts/repository.json''"
proof
  assume "script_path a = ''/tmp/scripts/repository.json''"
  then have "last (script_path a) = last ''/tmp/scripts/repository.json''" by simp
  then show False by (simp add: script_path_def)
qed

lemma output_path_neq_repository [simp]: "output_path a \<noteq> ''/tmp/scripts/repository.json''"
proof
  assume "output_path a = ''/tmp/scripts/repository.json''"
  then have "last (output_path a) = last ''/tmp/scripts/repository.json''" by simp
  then show False by (simp add: output_path_def)
qed

lemma staging_not_tmp [simp]:
  "script_path a \<noteq> ''/tmp/custom_init.sh''" "output_path a \<noteq> ''/tmp/custom_init.sh''"
  "script_path a \<noteq> ''/tmp/init_script_output.txt''" "output_path a \<noteq> ''/tmp/init_script_output.txt''"
  "script_path a \<noteq> ''/tmp/user_data_complete''" "output_path a \<noteq> ''/tmp/user_data_complete''"
  by (simp_all add: script_path_def output_path_def)

subsection \<open>The binder\<close>

lemma bind_params_ok:
  "list_all (\<lambda>(n, v). putenv_error n (py_str v) = None) pm \<Longrightarrow>
   fst (bind_params w pm (param_args, env))
     = Inr (param_args @ concat (map (\<lambda>(n, v). '' '' @ flag_token w n v) pm))"
  by (induction pm arbitrary: param_args env) auto

lemma bind_params_raises:
  "\<not> list_all (\<lambda>(n, v). putenv_error n (py_str v) = None) pm \<Longrightarrow>
   \<exists>e. fst (bind_params w pm (param_args, env)) = Inl e"
  by (induction pm arbitrary: param_args env) (auto split: option.splits)

lemma bind_params_env_other:
  "k \<notin> fst ` set pm \<Longrightarrow> snd (bind_params w pm (param_args, env)) k = env k"
  by (induction pm arbitrary: param_args env) (auto split: option.splits)

lemma bind_params_env_bound:
  "(k, v) \<in> set pm \<Longrightarrow> distinct (map fst pm)
     \<Longrightarrow> list_all (\<lambda>(n, v). putenv_error n (py_str v) = None) pm
     \<Longrightarrow> snd (bind_params w pm (param_args, env)) k = Some (py_str v)"
proof (induction pm arbitrary: param_args env)
  case Nil
  then show ?case by simp
next
  case (Cons p pm)
  obtain n x where p: "p = (n, x)" by (cases p)
  from Cons.prems(3) p have ok: "putenv_error n (py_str x) = None"
    and rest: "list_all (\<lambda>(n, v). putenv_error n (py_str v) = None) pm"
    by simp_all
  show ?case
  proof (cases "(k, v) = p")
    case True
    with Cons.prems p have "k \<notin> fst ` set pm" by auto
    with True p ok show ?thesis by (simp add: bind_params_env_other)
  next
    case False
    with Cons.prems have "(k, v) \<in> set pm" "distinct (map fst pm)" by auto
    then have "snd (bind_params w pm (param_args @ '' '' @ flag_token w n x, env(n \<mapsto> py_str x))) k
                 = Some (py_str v)"
      using rest by (rule Cons.IH)
    then show ?thesis by (simp add: p ok)
  qed
qed

lemma bind_params_dom:
  "k \<in> dom env \<Longrightarrow> k \<in> dom (snd (bind_params w pm (param_args, env)))"
proof (induction pm arbitrary: param_args env)
  case Nil
  then show ?case by simp
next
  case (Cons p pm)
  obtain n x where p: "p = (n, x)" by (cases p)
  show ?case
  proof (cases "putenv_error n (py_str x)")
    case (Some e)
    with Cons.prems show ?thesis by (simp add: p)
  next
    case None
    have "k \<in> dom (snd (bind_params w pm (param_args @ '' '' @ flag_token w n x, env(n \<mapsto> py_str x))))"
      by (rule Cons.IH) (use Cons.prems in auto)
    with None show ?thesis by (simp add: p)
  qed
qed

subsection \<open>One step\<close>

lemma execute_script_raises:
  assumes "fst (bind_params w pm ([], environ s)) = Inl e"
  shows "execute_script w alias f pm s
           = (Inl e, s\<lparr>environ := snd (bind_params w pm ([], environ s))\<rparr>)"
  using assms by (cases "bind_params w pm ([], environ s)") (simp add: execute_script_def)

lemma execute_script_eq:
  assumes "fst (bind_params w pm ([], environ s)) = Inr param_args"
  shows "execute_script w alias f pm s =
     (let cmd = f @ param_args;
          env = snd (bind_params w pm ([], environ s));
          res = run_result (subprocess_run w (tick s) cmd env);
          content = captured (fst res) (fst (snd res))
      in (Inr (snd (snd res), first_lines content),
          s\<lparr>environ := env, tick := Suc (tick s),
            runs := runs s @ [\<lparr>run_label = ForAlias alias, run_tick = tick s, run_cmd = cmd,
                               run_env = env\<rparr>],
            files := (files s)(output_path alias \<mapsto> content)\<rparr>))"
  using assms
  by (cases "bind_params w pm ([], environ s)")
     (auto simp: execute_script_def run_command_def write_file_def read_first_lines_def Let_def
           split: prod.splits)

lemma process_alias_disj:
  "(map_of repository alias = None
      \<or> (\<exists>u. map_of repository alias = Some u \<and> convert_github_url u = []))
   \<or> (\<exists>u e. map_of repository alias = Some u \<and> convert_github_url u \<noteq> []
        \<and> urlopen w (Suc (tick s)) (convert_github_url u) = Inl e)
   \<or> (\<exists>u body e. map_of repository alias = Some u \<and> convert_github_url u \<noteq> []
        \<and> urlopen w (Suc (tick s)) (convert_github_url u) = Inr body
        \<and> open_script_file w (Suc (Suc (tick s))) (script_path alias) = Some e)
   \<or> (\<exists>u body e. map_of repository alias = Some u \<and> convert_github_url u \<noteq> []
        \<and> urlopen w (Suc (tick s)) (convert_github_url u) = Inr body
        \<and> open_script_file w (Suc (Suc (tick s))) (script_path alias) = None
        \<and> fst (bind_params w (get_params sp alias) ([], environ s)) = Inl e)
   \<or> (\<exists>u body param_args. map_of repository alias = Some u \<and> convert_github_url u \<noteq> []
        \<and> urlopen w (Suc (tick s)) (convert_github_url u) = Inr body
        \<and> open_script_file w (Suc (Suc (tick s))) (script_path alias) = None
        \<and> fst (bind_params w (get_params sp alias) ([], environ s)) = Inr param_args)"
proof (cases "map_of repository alias")
  case None
  then show ?thesis by simp
next
  case (Some u)
  show ?thesis
  proof (cases "convert_github_url u = []")
    case True
    with Some show ?thesis by simp
  next
    case False
    show ?thesis
    proof (cases "urlopen w (Suc (tick s)) (convert_github_url u)")
      case (Inl e)
      with Some False show ?thesis by simp
    next
      case (Inr body)
      show ?thesis
      proof (cases "open_script_file w (Suc (Suc (tick s))) (script_path alias)")
        case (Some e)
        with \<open>map_of repository alias = Some u\<close> False Inr show ?thesis by simp
      next
        case None
        with \<open>map_of repository alias = Some u\<close> False Inr show ?thesis
          by (cases "fst (bind_params w (get_params sp alias) ([], environ s))") simp_all
      qed
    qed
  qed
qed

lemma process_alias_cases [case_names no_url fetch_failed write_failed bind_failed executed]:
  obtains "map_of repository alias = None
             \<or> (\<exists>u. map_of repository alias = Some u \<and> convert_github_url u = [])"
  | u e where "map_of repository alias = Some u" "convert_github_url u \<noteq> []"
      "urlopen w (Suc (tick s)) (convert_github_url u) = Inl e"
  | u body e where "map_of repository alias = Some u" "convert_github_url u \<noteq> []"
      "urlopen w (Suc (tick s)) (convert_github_url u) = Inr body"
      "open_script_file w (Suc (Suc (tick s))) (script_path alias) = Some e"
  | u body e where "map_of repository alias = Some u" "convert_github_url u \<noteq> []"
      "urlopen w (Suc (tick s)) (convert_github_url u) = Inr body"
      "open_script_file w (Suc (Suc (tick s))) (script_path alias) = None"
      "fst (bind_params w (get_params sp alias) ([], environ s)) = Inl e"
  | u body param_args where "map_of repository alias = Some u" "convert_github_url u \<noteq> []"
      "urlopen w (Suc (tick s)) (convert_github_url u) = Inr body"
      "open_script_file w (Suc (Suc (tick s))) (script_path alias) = None"
      "fst (bind_params w (get_params sp alias) ([], environ s)) = Inr param_args"
  using process_alias_disj [of repository "alias" w s sp] by blast

lemma process_alias_no_url:
  assumes "map_of repository alias = None
             \<or> (\<exists>u. map_of repository alias = Some u \<and> convert_github_url u = [])"
  shows "process_alias w repository sp alias s =
           set_script alias
             (error_record ''No URL found for alias'' (utcnow w (tick s)) (utcnow w (Suc (tick s))))
             (s\<lparr>tick := Suc (Suc (tick s))\<rparr>)"
  using assms by (auto simp: process_alias_def no_url_def now_def)

lemma process_alias_fetch_failed:
  assumes "map_of repository alias = Some u" "convert_github_url u \<noteq> []"
      "urlopen w (Suc (tick s)) (convert_github_url u) = Inl e"
  shows "process_alias w repository sp alias s =
           set_script alias
             (error_record e (utcnow w (tick s)) (utcnow w (Suc (Suc (tick s)))))
             (s\<lparr>tick := Suc (Suc (Suc (tick s)))\<rparr>)"
  using assms by (auto simp: process_alias_def now_def download_script_def Let_def)

lemma process_alias_write_failed:
  assumes "map_of repository alias = Some u" "convert_github_url u \<noteq> []"
      "urlopen w (Suc (tick s)) (convert_github_url u) = Inr body"
      "open_script_file w (Suc (Suc (tick s))) (script_path alias) = Some e"
  shows "process_alias w repository sp alias s =
           set_script alias
             (error_record e (utcnow w (tick s)) (utcnow w (Suc (Suc (Suc (tick s))))))
             (s\<lparr>tick := Suc (Suc (Suc (Suc (tick s))))\<rparr>)"
  using assms by (auto simp: process_alias_def now_def download_script_def Let_def)

lemma process_alias_bind_failed:
  assumes "map_of repository alias = Some u" "convert_github_url u \<noteq> []"
      "urlopen w (Suc (tick s)) (convert_github_url u) = Inr body"
      "open_script_file w (Suc (Suc (tick s))) (script_path alias) = None"
      "fst (bind_params w (get_params sp alias) ([], environ s)) = Inl e"
  shows "process_alias w repository sp alias s =
           set_script alias
             (error_record e (utcnow w (tick s)) (utcnow w (Suc (Suc (Suc (tick s))))))
             (s\<lparr>tick := Suc (Suc (Suc (Suc (tick s)))),
                environ := snd (bind_params w (get_params sp alias) ([], environ s)),
                files := (files s)(script_path alias \<mapsto> artifact body),
                modes := (modes s)(script_path alias \<mapsto> 493)\<rparr>)"
proof -
  let ?s2 = "chmod (script_path alias) 493 (write_file (script_path alias) (artifact body)
               (s\<lparr>tick := Suc (Suc (Suc (tick s)))\<rparr>))"
  have env: "environ ?s2 = environ s" by (simp add: chmod_def write_file_def)
  have ex: "execute_script w alias (script_path alias) (get_params sp alias) ?s2
          = (Inl e, ?s2\<lparr>environ := snd (bind_params w (get_params sp alias) ([], environ ?s2))\<rparr>)"
    by (rule execute_script_raises) (simp add: env assms(5))
  show ?thesis
    using assms(1-4)
    by (simp add: process_alias_def now_def download_script_def Let_def ex)
       (simp add: write_file_def chmod_def set_script_def)
qed

lemma process_alias_executed:
  assumes "map_of repository alias = Some u" "convert_github_url u \<noteq> []"
      "urlopen w (Suc (tick s)) (convert_github_url u) = Inr body"
      "open_script_file w (Suc (Suc (tick s))) (script_path alias) = None"
      "fst (bind_params w (get_params sp alias) ([], environ s)) = Inr param_args"
  shows "process_alias w repository sp alias s =
           (let cmd = script_path alias @ param_args;
                env = snd (bind_params w (get_params sp alias) ([], environ s));
                res = run_result (subprocess_run w (Suc (Suc (Suc (tick s)))) cmd env);
                content = captured (fst res) (fst (snd res))
            in set_script alias
                 (result_record (snd (snd res)) (first_lines content)
                    (utcnow w (tick s)) (utcnow w (Suc (Suc (Suc (Suc (tick s)))))))
                 (s\<lparr>tick := Suc (Suc (Suc (Suc (Suc (tick s))))), environ := env,
                    runs := runs s @ [\<lparr>run_label = ForAlias alias,
                                       run_tick = Suc (Suc (Suc (tick s))), run_cmd = cmd,
                                       run_env = env\<rparr>],
                    files := (files s)(script_path alias \<mapsto> artifact body,
                                       output_path alias \<mapsto> content),
                    modes := (modes s)(script_path alias \<mapsto> 493)\<rparr>))"
proof -
  let ?s2 = "chmod (script_path alias) 493 (write_file (script_path alias) (artifact body)
               (s\<lparr>tick := Suc (Suc (Suc (tick s)))\<rparr>))"
  have env: "environ ?s2 = environ s" by (simp add: chmod_def write_file_def)
  have "fst (bind_params w (get_params sp alias) ([], environ ?s2)) = Inr param_args"
    by (simp add: env assms(5))
  note ex = execute_script_eq [OF this]
  show ?thesis
    using assms(1-4)
    by (simp add: process_alias_def now_def download_script_def Let_def ex)
       (simp add: write_file_def chmod_def set_script_def Let_def)
qed

text \<open>The two kinds of outcome of a step, with what each leaves alone.\<close>

lemma process_alias_outcome:
  "(\<exists>e t0 t1 s'.
      process_alias w repository sp x s = set_script x (error_record e t0 t1) s'
      \<and> runs s' = runs s
      \<and> (\<forall>p. p \<noteq> script_path x \<longrightarrow> files s' p = files s p)
      \<and> script_status_report s' = script_status_report s \<and> posted s' = posted s
      \<and> (environ s' = environ s
           \<or> environ s' = snd (bind_params w (get_params sp x) ([], environ s))))
   \<or> (\<exists>ev content t0 t1 s'.
      process_alias w repository sp x s
        = set_script x
            (result_record
               (snd (snd (run_result (subprocess_run w (run_tick ev) (run_cmd ev) (run_env ev)))))
               (first_lines content) t0 t1) s'
      \<and> runs s' = runs s @ [ev] \<and> run_label ev = ForAlias x \<and> run_env ev = environ s'
      \<and> files s' (output_path x) = Some content
      \<and> (\<forall>p. p \<noteq> script_path x \<longrightarrow> p \<noteq> output_path x \<longrightarrow> files s' p = files s p)
      \<and> script_status_report s' = script_status_report s \<and> posted s' = posted s
      \<and> environ s' = snd (bind_params w (get_params sp x) ([], environ s)))"
proof (cases rule: process_alias_cases [of repository x _ w s sp])
  case no_url
  show ?thesis
    by (rule disjI1, subst process_alias_no_url [OF no_url], intro exI conjI, rule refl) simp_all
next
  case (fetch_failed u e)
  show ?thesis
    by (rule disjI1, subst process_alias_fetch_failed [OF fetch_failed], intro exI conjI, rule refl)
       simp_all
next
  case (write_failed u body e)
  show ?thesis
    by (rule disjI1, subst process_alias_write_failed [OF write_failed], intro exI conjI, rule refl)
       simp_all
next
  case (bind_failed u body e)
  show ?thesis
    by (rule disjI1, subst process_alias_bind_failed [OF bind_failed], intro exI conjI, rule refl)
       simp_all
next
  case (executed u body param_args)
  let ?cmd = "script_path x @ param_args"
  let ?env = "snd (bind_params w (get_params sp x) ([], environ s))"
  let ?ev = "\<lparr>run_label = ForAlias x, run_tick = Suc (Suc (Suc (tick s))), run_cmd = ?cmd,
              run_env = ?env\<rparr>"
  let ?res = "run_result (subprocess_run w (Suc (Suc (Suc (tick s)))) ?cmd ?env)"
  show ?thesis
    apply (rule disjI2)
    apply (subst process_alias_executed [OF executed])
    apply (unfold Let_def)
    apply (rule exI [of _ ?ev])
    apply (rule exI [of _ "captured (fst ?res) (fst (snd ?res))"])
    apply (intro exI conjI)
             apply simp
            apply simp_all
    done
qed

lemma process_alias_outcome_cases [case_names errored executed]:
  obtains e t0 t1 s' where
      "process_alias w repository sp x s = set_script x (error_record e t0 t1) s'"
      "runs s' = runs s" "\<And>p. p \<noteq> script_path x \<Longrightarrow> files s' p = files s p"
      "script_status_report s' = script_status_report s" "posted s' = posted s"
      "environ s' = environ s
         \<or> environ s' = snd (bind_params w (get_params sp x) ([], environ s))"
  | ev content t0 t1 s' where
      "process_alias w repository sp x s
        = set_script x
            (result_record
               (snd (snd (run_result (subprocess_run w (run_tick ev) (run_cmd ev) (run_env ev)))))
               (first_lines content) t0 t1) s'"
      "runs s' = runs s @ [ev]" "run_label ev = ForAlias x" "run_env ev = environ s'"
      "files s' (output_path x) = Some content"
      "\<And>p. p \<noteq> script_path x \<Longrightarrow> p \<noteq> output_path x \<Longrightarrow> files s' p = files s p"
      "script_status_report s' = script_status_report s" "posted s' = posted s"
      "environ s' = snd (bind_params w (get_params sp x) ([], environ s))"
  using process_alias_outcome [of w repository sp x s] by blast

subsection \<open>What one step leaves alone\<close>

lemma scripts_set_script:
  "map_of (rep_scripts (script_status_report (set_script alias r s)))
     = (map_of (rep_scripts (script_status_report s)))(alias \<mapsto> r)"
  by (simp add: set_script_def update_conv')

lemma set_script_other [simp]:
  "files (set_script alias r s) = files s" "runs (set_script alias r s) = runs s"
  "environ (set_script alias r s) = environ s" "tick (set_script alias r s) = tick s"
  "posted (set_script alias r s) = posted s" "modes (set_script alias r s) = modes s"
  "rep_init_script (script_status_report (set_script alias r s)) = rep_init_script (script_status_report s)"
  "rep_repository_status (script_status_report (set_script alias r s))
     = rep_repository_status (script_status_report s)"
  "rep_timestamp (script_status_report (set_script alias r s)) = rep_timestamp (script_status_report s)"
  "rep_instance_name (script_status_report (set_script alias r s))
     = rep_instance_name (script_status_report s)"
  by (simp_all add: set_script_def)

lemma process_alias_scripts_other:
  "y \<noteq> x \<Longrightarrow>
   map_of (rep_scripts (script_status_report (process_alias w repository sp x s))) y
     = map_of (rep_scripts (script_status_report s)) y"
proof (cases rule: process_alias_outcome_cases [of w repository sp x s])
  case (errored e t0 t1 s')
  assume "y \<noteq> x"
  then show ?thesis
    by (simp add: errored(1,4) scripts_set_script)
next
  case (executed ev content t0 t1 s')
  assume "y \<noteq> x"
  then show ?thesis
    by (simp add: executed(1,7) scripts_set_script)
qed

lemma process_alias_files_other:
  "p \<noteq> script_path x \<Longrightarrow> p \<noteq> output_path x \<Longrightarrow>
   files (process_alias w repository sp x s) p = files s p"
proof (cases rule: process_alias_outcome_cases [of w repository sp x s])
  case (errored e t0 t1 s')
  assume "p \<noteq> script_path x"
  then show ?thesis by (simp add: errored(1,3))
next
  case (executed ev content t0 t1 s')
  assume "p \<noteq> script_path x" "p \<noteq> output_path x"
  then show ?thesis by (simp add: executed(1,6))
qed


lemma process_alias_runs:
  "runs (process_alias w repository sp x s) = runs s
   \<or> (\<exists>ev. runs (process_alias w repository sp x s) = runs s @ [ev]
            \<and> run_label ev = ForAlias x
            \<and> run_env ev = environ (process_alias w repository sp x s))"
proof (cases rule: process_alias_outcome_cases [of w repository sp x s])
  case (errored e t0 t1 s')
  then show ?thesis by simp
next
  case (executed ev content t0 t1 s')
  then show ?thesis by simp
qed

lemma process_alias_environ_other:
  "k \<notin> fst ` set (get_params sp x) \<Longrightarrow>
   environ (process_alias w repository sp x s) k = environ s k"
proof (cases rule: process_alias_outcome_cases [of w repository sp x s])
  case (errored e t0 t1 s')
  assume "k \<notin> fst ` set (get_params sp x)"
  with errored(6) have "environ s' k = environ s k"
    by (auto simp: bind_params_env_other)
  then show ?thesis by (simp add: errored(1))
next
  case (executed ev content t0 t1 s')
  assume "k \<notin> fst ` set (get_params sp x)"
  then show ?thesis
    by (simp add: executed(1,9) bind_params_env_other)
qed

lemma process_alias_environ_dom:
  "k \<in> dom (environ s) \<Longrightarrow> k \<in> dom (environ (process_alias w repository sp x s))"
proof (cases rule: process_alias_outcome_cases [of w repository sp x s])
  case (errored e t0 t1 s')
  assume "k \<in> dom (environ s)"
  then have "k \<in> dom (snd (bind_params w (get_params sp x) ([], environ s)))"
    by (rule bind_params_dom)
  with \<open>k \<in> dom (environ s)\<close> errored(6) have "k \<in> dom (environ s')" by auto
  then show ?thesis by (simp add: errored(1))
next
  case (executed ev content t0 t1 s')
  assume "k \<in> dom (environ s)"
  then have "k \<in> dom (snd (bind_params w (get_params sp x) ([], environ s)))"
    by (rule bind_params_dom)
  then show ?thesis
    by (simp add: executed(1,9))
qed

lemma process_alias_report_rest:
  "rep_init_script (script_status_report (process_alias w repository sp x s))
     = rep_init_script (script_status_report s)"
  "rep_repository_status (script_status_report (process_alias w repository sp x s))
     = rep_repository_status (script_status_report s)"
  "posted (process_alias w repository sp x s) = posted s"
  by (cases rule: process_alias_outcome_cases [of w repository sp x s]; simp)+

subsection \<open>The loop over the aliases\<close>




lemma loop_environ_other:
  "\<forall>b\<in>set xs. k \<notin> fst ` set (get_params sp b) \<Longrightarrow>
   environ (process_aliases w repository sp xs s) k = environ s k"
  by (induction xs arbitrary: s) (simp_all add: process_alias_environ_other)

lemma loop_environ_dom:
  "k \<in> dom (environ s) \<Longrightarrow> k \<in> dom (environ (process_aliases w repository sp xs s))"
  by (induction xs arbitrary: s) (simp_all add: process_alias_environ_dom)

lemma loop_runs_environ:
  "\<forall>b\<in>set xs. k \<notin> fst ` set (get_params sp b) \<Longrightarrow>
   \<exists>new. runs (process_aliases w repository sp xs s) = runs s @ new
          \<and> (\<forall>e\<in>set new. run_env e k = environ s k)"
proof (induction xs arbitrary: s)
  case Nil
  show ?case by simp
next
  case (Cons x xs)
  let ?s1 = "process_alias w repository sp x s"
  from Cons.prems have k: "environ ?s1 k = environ s k"
    by (simp add: process_alias_environ_other)
  from Cons.prems Cons.IH [of ?s1] obtain new
    where new: "runs (process_aliases w repository sp xs ?s1) = runs ?s1 @ new"
      "\<forall>e\<in>set new. run_env e k = environ s k"
    using k by auto
  from process_alias_runs [of w repository sp x s] k
  obtain first where "runs ?s1 = runs s @ first" "\<forall>e\<in>set first. run_env e k = environ s k"
    by (elim disjE exE conjE) (rule that [of "[]"], simp, simp, rule that, simp, simp)
  with new show ?case by (intro exI [of _ "first @ new"]) auto
qed

subsection \<open>Lower case\<close>










subsection \<open>The catalog\<close>



lemma download_repository_scripts:
  "rep_scripts (script_status_report (snd (download_repository w url s)))
     = rep_scripts (script_status_report s)"
  by (simp add: download_repository_def set_repository_status_def write_file_def Let_def
      split: sum.splits option.splits)

lemma download_repository_parsed:
  assumes "urlopen w (tick s) url = Inr content" "json_loads_catalog w content = Some repository"
  shows "fst (download_repository w url s) = Some repository"
  using assms by (simp add: download_repository_def Let_def)

lemma download_and_execute_scripts_loop:
  assumes "arg_scripts_repository_url a \<noteq> []" "arg_script_aliases a \<noteq> []"
    "urlopen w (tick s) (arg_scripts_repository_url a) = Inr content"
    "json_loads_catalog w content = Some repository" "repository \<noteq> []"
  shows "download_and_execute_scripts w a s
           = process_aliases w repository
               (case json_loads_parameters w (arg_script_parameters a) of Some p \<Rightarrow> p | None \<Rightarrow> [])
               (py_split (arg_script_aliases a))
               (snd (download_repository w (arg_scripts_repository_url a) s))"
  using download_repository_parsed [OF assms(3,4)] assms(1,2,5)
  by (cases "download_repository w (arg_scripts_repository_url a) s")
     (simp add: download_and_execute_scripts_def)


subsection \<open>Executed scripts\<close>

lemma process_alias_runs_script:
  assumes "map_of repository x = Some u" and "convert_github_url u \<noteq> []"
    and "urlopen w (Suc (tick s)) (convert_github_url u) = Inr body"
    and "open_script_file w (Suc (Suc (tick s))) (script_path x) = None"
    and "list_all (\<lambda>(n, v). putenv_error n (py_str v) = None) (get_params sp x)"
  shows "runs (process_alias w repository sp x s) \<noteq> runs s"
    and "files (process_alias w repository sp x s) (script_path x) = Some (artifact body)"
proof -
  from assms(5) have "fst (bind_params w (get_params sp x) ([], environ s))
      = Inr ([] @ concat (map (\<lambda>(n, v). '' '' @ flag_token w n v) (get_params sp x)))"
    by (rule bind_params_ok)
  note eq = process_alias_executed [OF assms(1-4) this]
  show "runs (process_alias w repository sp x s) \<noteq> runs s"
    unfolding eq Let_def by simp
  show "files (process_alias w repository sp x s) (script_path x) = Some (artifact body)"
    unfolding eq Let_def by simp
qed

lemma process_alias_rejected_name:
  assumes "map_of repository x = Some u" and "convert_github_url u \<noteq> []"
    and "urlopen w (Suc (tick s)) (convert_github_url u) = Inr body"
    and "open_script_file w (Suc (Suc (tick s))) (script_path x) = None"
    and "\<not> list_all (\<lambda>(n, v). putenv_error n (py_str v) = None) (get_params sp x)"
  shows "runs (process_alias w repository sp x s) = runs s"
    and "\<exists>r. map_of (rep_scripts (script_status_report (process_alias w repository sp x s))) x = Some r
           \<and> rec_status r = ''error''"
proof -
  from assms(5) obtain e where "fst (bind_params w (get_params sp x) ([], environ s)) = Inl e"
    using bind_params_raises by blast
  note eq = process_alias_bind_failed [OF assms(1-4) this]
  show "runs (process_alias w repository sp x s) = runs s"
    unfolding eq by simp
  show "\<exists>r. map_of (rep_scripts (script_status_report (process_alias w repository sp x s))) x = Some r
           \<and> rec_status r = ''error''"
    unfolding eq by (simp add: scripts_set_script error_record_def)
qed

lemma process_alias_unwritable:
  assumes "map_of repository x = Some u" and "convert_github_url u \<noteq> []"
    and "urlopen w (Suc (tick s)) (convert_github_url u) = Inr body"
    and "open_script_file w (Suc (Suc (tick s))) (script_path x) = Some e"
  shows "runs (process_alias w repository sp x s) = runs s"
    and "files (process_alias w repository sp x s) = files s"
    and "map_of (rep_scripts (script_status_report (process_alias w repository sp x s))) x
           = Some (error_record e (utcnow w (tick s)) (utcnow w (Suc (Suc (Suc (tick s))))))"
  unfolding process_alias_write_failed [OF assms]
  by (simp_all add: scripts_set_script)



text \<open>
  Claim C3. A variable that is set in \<^verbatim>\<open>os.environ\<close> when the processing of an alias ends
  is still set to that value at the end of the loop and in the environment of every
  command started for the later aliases, as long as none of them has a parameter of the
  same name; no variable is removed while the later aliases are processed.
\<close>

theorem environment_persists:
  assumes "environ (process_alias w repository sp a s) k = Some v"
    and "\<forall>b\<in>set rest. k \<notin> fst ` set (get_params sp b)"
  shows "environ (process_aliases w repository sp (a # rest) s) k = Some v
         \<and> (\<forall>e\<in>set (drop (length (runs (process_alias w repository sp a s)))
                         (runs (process_aliases w repository sp (a # rest) s))).
               run_env e k = Some v)
         \<and> dom (environ (process_alias w repository sp a s))
             \<subseteq> dom (environ (process_aliases w repository sp (a # rest) s))"
proof -
  let ?s1 = "process_alias w repository sp a s"
  have e2: "environ (process_aliases w repository sp rest ?s1) k = Some v"
    using loop_environ_other [OF assms(2)] assms(1) by simp
  have "\<exists>new. runs (process_aliases w repository sp rest ?s1) = runs ?s1 @ new
          \<and> (\<forall>e\<in>set new. run_env e k = environ ?s1 k)"
    using assms(2) by (rule loop_runs_environ)
  with assms(1)
  have e3: "\<forall>e\<in>set (drop (length (runs ?s1)) (runs (process_aliases w repository sp rest ?s1))).
               run_env e k = Some v"
    by auto
  have e4: "dom (environ ?s1) \<subseteq> dom (environ (process_aliases w repository sp rest ?s1))"
    using loop_environ_dom by blast
  from e2 e3 e4 show ?thesis by simp
qed

lemma process_alias_establishes:
  assumes "map_of repository a = Some u" and "convert_github_url u \<noteq> []"
    and "urlopen w (Suc (tick s)) (convert_github_url u) = Inr body"
    and "open_script_file w (Suc (Suc (tick s))) (script_path a) = None"
    and "list_all (\<lambda>(n, v). putenv_error n (py_str v) = None) (get_params sp a)"
    and "(k, v) \<in> set (get_params sp a)" and "distinct (map fst (get_params sp a))"
  shows "environ (process_alias w repository sp a s) k = Some (py_str v)"
proof -
  from assms(5) have "fst (bind_params w (get_params sp a) ([], environ s))
      = Inr ([] @ concat (map (\<lambda>(n, v). '' '' @ flag_token w n v) (get_params sp a)))"
    by (rule bind_params_ok)
  note eq = process_alias_executed [OF assms(1-4) this]
  show ?thesis
    unfolding eq Let_def using bind_params_env_bound [OF assms(6,7,5)] by simp
qed

subsection \<open>Reading lines\<close>

lemma concat_keepends: "concat (keepends s) = s"
proof (induction s)
  case Nil
  show ?case by simp
next
  case (Cons c cs)
  show ?case
  proof (cases "keepends cs")
    case Nil
    with Cons have "cs = []" by simp
    then show ?thesis by simp
  next
    case (Cons l ls)
    with Cons.IH have "l @ concat ls = cs" by simp
    with Cons show ?thesis by simp
  qed
qed

lemma universal_newlines_no_CR: "CR \<notin> set (universal_newlines s)"
  by (induction s rule: universal_newlines.induct) (simp_all add: CR_def LF_def)

lemma universal_newlines_id: "CR \<notin> set s \<Longrightarrow> universal_newlines s = s"
proof (induction s rule: universal_newlines.induct)
  case 1
  show ?case by simp
next
  case (2 c)
  then show ?case by simp
next
  case (3 c d cs)
  from "3.prems" have c: "c \<noteq> CR" and rest: "CR \<notin> set (d # cs)" by auto
  from c have "\<not> (c = CR \<and> d = LF)" by simp
  from "3.IH"(3) [OF this c rest] c show ?case by simp
qed

lemma keepends_take:
  "keepends (concat (take n (keepends s))) = take n (keepends s)"
proof (induction s arbitrary: n)
  case Nil
  show ?case by simp
next
  case (Cons c cs)
  note IH = Cons.IH
  show ?case
  proof (cases n)
    case 0
    then show ?thesis by simp
  next
    case (Suc m)
    show ?thesis
    proof (cases "c = LF")
      case True
      then show ?thesis by (simp add: Suc IH [of m])
    next
      case False
      show ?thesis
      proof (cases "keepends cs")
        case Nil
        then show ?thesis by (simp add: False Suc)
      next
        case (Cons l ls)
        from IH [of "Suc m"] have "keepends (l @ concat (take m ls)) = l # take m ls"
          by (simp add: Cons)
        then show ?thesis by (simp add: False Suc Cons)
      qed
    qed
  qed
qed

lemma set_concat_take: "set (concat (take n xs)) \<subseteq> set (concat xs)"
  by (auto dest: in_set_takeD)

lemma readlines_first_lines: "readlines (first_lines content) = take 20 (readlines content)"
proof -
  let ?ls = "keepends (universal_newlines content)"
  have "set (concat (take 20 ?ls)) \<subseteq> set (concat ?ls)"
    by (rule set_concat_take)
  then have "CR \<notin> set (concat (take 20 ?ls))"
    using universal_newlines_no_CR [of content] unfolding concat_keepends by blast
  then have "universal_newlines (concat (take 20 ?ls)) = concat (take 20 ?ls)"
    by (rule universal_newlines_id)
  then have "keepends (universal_newlines (concat (take 20 ?ls))) = take 20 ?ls"
    by (simp only: keepends_take)
  then show ?thesis
    unfolding readlines_def first_lines_def .
qed

lemma first_lines_bound: "length (readlines (first_lines content)) \<le> 20"
  by (simp add: readlines_first_lines)

subsection \<open>The phases of the pipeline\<close>

lemma download_and_execute_scripts_disj:
  "download_and_execute_scripts w a s = s
   \<or> download_and_execute_scripts w a s = snd (download_repository w (arg_scripts_repository_url a) s)
   \<or> (\<exists>repository sp. download_and_execute_scripts w a s
         = process_aliases w repository sp (py_split (arg_script_aliases a))
             (snd (download_repository w (arg_scripts_repository_url a) s)))"
  by (cases "download_repository w (arg_scripts_repository_url a) s")
     (auto simp: download_and_execute_scripts_def Let_def split: option.splits)

lemma download_and_execute_scripts_cases [case_names skipped no_catalog looped]:
  obtains "download_and_execute_scripts w a s = s"
  | "download_and_execute_scripts w a s
       = snd (download_repository w (arg_scripts_repository_url a) s)"
  | repository sp where
      "download_and_execute_scripts w a s
         = process_aliases w repository sp (py_split (arg_script_aliases a))
             (snd (download_repository w (arg_scripts_repository_url a) s))"
  using download_and_execute_scripts_disj [of w a s] by blast

lemma download_repository_rest:
  "environ (snd (download_repository w url s)) = environ s"
  "posted (snd (download_repository w url s)) = posted s"
  "rep_init_script (script_status_report (snd (download_repository w url s)))
     = rep_init_script (script_status_report s)"
  by (simp_all add: download_repository_def set_repository_status_def write_file_def Let_def
      split: sum.splits option.splits)


lemma loop_report_rest:
  "rep_init_script (script_status_report (process_aliases w repository sp xs s))
     = rep_init_script (script_status_report s)"
  "rep_repository_status (script_status_report (process_aliases w repository sp xs s))
     = rep_repository_status (script_status_report s)"
  "posted (process_aliases w repository sp xs s) = posted s"
  by (induction xs arbitrary: s) (simp_all add: process_alias_report_rest)


lemma download_and_execute_scripts_init:
  "rep_init_script (script_status_report (download_and_execute_scripts w a s))
     = rep_init_script (script_status_report s)"
  by (cases rule: download_and_execute_scripts_cases [of w a s _])
     (simp_all add: loop_report_rest download_repository_rest)


lemma run_init_script_blank:
  "py_strip (arg_init_script a) = [] \<Longrightarrow> run_init_script w a s = s"
  by (simp add: run_init_script_def)

lemma run_init_script_eq:
  assumes "py_strip (arg_init_script a) \<noteq> []"
  shows "run_init_script w a s =
           (let res = run_result (subprocess_run w (Suc (tick s)) ''/tmp/custom_init.sh'' (environ s));
                content = captured (fst res) (fst (snd res))
            in s\<lparr>files := (files s)(''/tmp/custom_init.sh'' \<mapsto> arg_init_script a,
                                     ''/tmp/init_script_output.txt'' \<mapsto> content),
                 modes := (modes s)(''/tmp/custom_init.sh'' \<mapsto> 493),
                 tick := Suc (Suc (Suc (tick s))),
                 runs := runs s @ [\<lparr>run_label = ForInit, run_tick = Suc (tick s),
                                     run_cmd = ''/tmp/custom_init.sh'', run_env = environ s\<rparr>],
                 script_status_report := (script_status_report s)\<lparr>rep_init_script :=
                    Some (result_record (snd (snd res)) (first_lines content)
                            (utcnow w (tick s)) (utcnow w (Suc (Suc (tick s)))))\<rparr>\<rparr>)"
  using assms
  by (simp add: run_init_script_def Let_def now_def run_command_def write_file_def chmod_def
        read_first_lines_def split: prod.splits)

lemma send_status_report_frame:
  "files (send_status_report w a s) = files s"
  "runs (send_status_report w a s) = runs s"
  "environ (send_status_report w a s) = environ s"
  "script_status_report (send_status_report w a s) = script_status_report s"
  by (simp_all add: send_status_report_def get_instance_metadata_def Let_def
      split: sum.splits prod.splits)


lemma demo_aliases: "py_split (arg_script_aliases demo_args) = [''a'', ''b'', ''c'']"
  by (simp add: demo_args_def py_split_def isspace_def)



lemmas step_defs = process_alias_def no_url_def now_def download_script_def execute_script_def
  run_command_def run_result_def write_file_def chmod_def set_script_def read_first_lines_def
  get_params_def convert_github_url_def startswith_def script_path_def output_path_def
  error_record_def result_record_def putenv_error_def NUL_def

lemmas demo_defs = demo_world_def demo_catalog_def demo_parameters_def demo_catalog_text_def
  demo_parameters_text_def demo_args_def initial_state_def




lemma unwritable_alias_example:
  "runs (process_alias demo_world [(''x/y'', ''http://repo/b.sh'')] [] ''x/y''
           (initial_state Map.empty)) = []"
  "files (process_alias demo_world [(''x/y'', ''http://repo/b.sh'')] [] ''x/y''
            (initial_state Map.empty)) (script_path ''x/y'') = None"
  "map_of (rep_scripts (script_status_report
      (process_alias demo_world [(''x/y'', ''http://repo/b.sh'')] [] ''x/y''
         (initial_state Map.empty)))) ''x/y''
     = Some (error_record (''[Errno 2] No such file or directory: '' @ [CHR 0x27]
                             @ ''/tmp/scripts/x/y.sh'' @ [CHR 0x27])
               ''2024-01-01T00:00:00Z'' ''2024-01-01T00:00:00Z'')"
  by (simp_all add: step_defs demo_defs Let_def)

theorem environment_persists_witness:
  "environ (initial_state Map.empty) ''FOO'' = None
   \<and> environ (process_alias demo_world demo_catalog demo_parameters ''a'' (initial_state Map.empty))
        ''FOO'' = Some ''1''
   \<and> ''FOO'' \<notin> fst ` set (get_params demo_parameters ''b'')
   \<and> ''FOO'' \<notin> fst ` set (get_params demo_parameters ''c'')
   \<and> environ (process_aliases demo_world demo_catalog demo_parameters [''a'', ''b'', ''c'']
                 (initial_state Map.empty)) ''FOO'' = Some ''1''
   \<and> map run_label
        (drop (length (runs (process_alias demo_world demo_catalog demo_parameters ''a''
                               (initial_state Map.empty))))
           (runs (process_aliases demo_world demo_catalog demo_parameters [''a'', ''b'', ''c'']
                    (initial_state Map.empty))))
       = [ForAlias ''b'']
   \<and> list_all (\<lambda>e. run_env e ''FOO'' = Some ''1'')
        (drop (length (runs (process_alias demo_world demo_catalog demo_parameters ''a''
                               (initial_state Map.empty))))
           (runs (process_aliases demo_world demo_catalog demo_parameters [''a'', ''b'', ''c'']
                    (initial_state Map.empty))))"
proof -
  have h0: "environ (initial_state Map.empty) ''FOO'' = None"
    by (simp add: initial_state_def)
  have h1: "environ (process_alias demo_world demo_catalog demo_parameters ''a'' (initial_state Map.empty))
        ''FOO'' = Some ''1''"
    by (simp add: step_defs demo_defs Let_def)
  have h6: "''FOO'' \<notin> fst ` set (get_params demo_parameters ''b'')"
    and h7: "''FOO'' \<notin> fst ` set (get_params demo_parameters ''c'')"
    by (simp_all add: get_params_def demo_parameters_def)
  from h6 h7 have h67: "\<forall>b\<in>set [''b'', ''c'']. ''FOO'' \<notin> fst ` set (get_params demo_parameters b)"
    by simp
  have later: "map run_label
        (drop (length (runs (process_alias demo_world demo_catalog demo_parameters ''a''
                               (initial_state Map.empty))))
           (runs (process_aliases demo_world demo_catalog demo_parameters [''a'', ''b'', ''c'']
                    (initial_state Map.empty))))
       = [ForAlias ''b'']"
    by (simp add: step_defs demo_defs Let_def)
  from environment_persists [OF h1 h67] h0 h1 h6 h7 later
  show ?thesis by (simp add: list_all_iff)
qed

subsection \<open>The whole pipeline\<close>

lemma initialize_report_frame:
  "files (initialize_report w a s) = files s" "runs (initialize_report w a s) = runs s"
  "environ (initialize_report w a s) = environ s" "posted (initialize_report w a s) = posted s"
  "rep_scripts (script_status_report (initialize_report w a s)) = []"
  "rep_init_script (script_status_report (initialize_report w a s)) = None"
  "tick (initialize_report w a s) = Suc (tick s)"
  by (simp_all add: initialize_report_def now_def)

lemma script_stage_disj:
  "script_stage w a s = s
   \<or> script_stage w a s = snd (download_repository w (arg_scripts_repository_url a) s)
   \<or> (\<exists>repository sp. script_stage w a s
         = process_aliases w repository sp (py_split (arg_script_aliases a))
             (snd (download_repository w (arg_scripts_repository_url a) s)))"
  using download_and_execute_scripts_disj [of w a s] by (simp add: script_stage_def)

lemma script_stage_cases [case_names skipped no_catalog looped]:
  obtains "script_stage w a s = s"
  | "script_stage w a s = snd (download_repository w (arg_scripts_repository_url a) s)"
  | repository sp where
      "script_stage w a s
         = process_aliases w repository sp (py_split (arg_script_aliases a))
             (snd (download_repository w (arg_scripts_repository_url a) s))"
  using script_stage_disj [of w a s] by blast


lemma script_stage_init:
  "rep_init_script (script_status_report (script_stage w a s))
     = rep_init_script (script_status_report s)"
  by (simp add: script_stage_def download_and_execute_scripts_init)




lemma run_init_script_scripts:
  "rep_scripts (script_status_report (run_init_script w a s)) = rep_scripts (script_status_report s)"
  "rep_repository_status (script_status_report (run_init_script w a s))
     = rep_repository_status (script_status_report s)"
  "posted (run_init_script w a s) = posted s"
  by (cases "py_strip (arg_init_script a) = []";
      simp add: run_init_script_blank run_init_script_eq Let_def)+

lemma run_init_script_files_other:
  "p \<noteq> ''/tmp/custom_init.sh'' \<Longrightarrow> p \<noteq> ''/tmp/init_script_output.txt'' \<Longrightarrow>
   files (run_init_script w a s) p = files s p"
  by (cases "py_strip (arg_init_script a) = []")
     (simp_all add: run_init_script_blank run_init_script_eq Let_def)

lemma signal_completion_frame:
  "runs (signal_completion s) = runs s" "environ (signal_completion s) = environ s"
  "script_status_report (signal_completion s) = script_status_report s"
  "posted (signal_completion s) = posted s" "tick (signal_completion s) = tick s"
  "files (signal_completion s) = (files s)(''/tmp/user_data_complete'' \<mapsto> [])"
  by (simp_all add: signal_completion_def write_file_def)

lemma publish_frame:
  "files (publish w a s) = files s" "runs (publish w a s) = runs s"
  "environ (publish w a s) = environ s"
  "script_status_report (publish w a s) = script_status_report s"
  by (simp_all add: publish_def send_status_report_frame)

lemma pipeline_files:
  "files (pipeline w a s)
     = (files (run_init_script w a (script_stage w a (initialize_report w a s))))
         (''/tmp/user_data_complete'' \<mapsto> [])"
  by (simp add: pipeline_def publish_frame signal_completion_frame)

lemma pipeline_runs:
  "runs (pipeline w a s) = runs (run_init_script w a (script_stage w a (initialize_report w a s)))"
  by (simp add: pipeline_def publish_frame signal_completion_frame)

lemma pipeline_report:
  "script_status_report (pipeline w a s)
     = script_status_report (run_init_script w a (script_stage w a (initialize_report w a s)))"
  by (simp add: pipeline_def publish_frame signal_completion_frame)


subsection \<open>Outputs in the report\<close>

lemma process_alias_outputs:
  assumes inv: "\<forall>y r out. map_of (rep_scripts (script_status_report s)) y = Some r \<longrightarrow>
            rec_output r = Some out \<longrightarrow>
            (\<exists>content. files s (output_path y) = Some content \<and> out = first_lines content)"
  shows "\<forall>y r out. map_of (rep_scripts (script_status_report (process_alias w repository sp x s))) y = Some r \<longrightarrow>
            rec_output r = Some out \<longrightarrow>
            (\<exists>content. files (process_alias w repository sp x s) (output_path y) = Some content
               \<and> out = first_lines content)"
proof (intro allI impI)
  fix y r out
  assume r: "map_of (rep_scripts (script_status_report (process_alias w repository sp x s))) y = Some r"
    and out: "rec_output r = Some out"
  show "\<exists>content. files (process_alias w repository sp x s) (output_path y) = Some content
               \<and> out = first_lines content"
  proof (cases "y = x")
    case False
    with r have "map_of (rep_scripts (script_status_report s)) y = Some r"
      by (simp add: process_alias_scripts_other)
    with inv out obtain content
      where "files s (output_path y) = Some content" "out = first_lines content"
      by blast
    moreover from False
    have "files (process_alias w repository sp x s) (output_path y) = files s (output_path y)"
      by (simp add: process_alias_files_other)
    ultimately show ?thesis by simp
  next
    case True
    show ?thesis
    proof (cases rule: process_alias_outcome_cases [of w repository sp x s])
      case (errored e t0 t1 s')
      with r out True show ?thesis
        by (auto simp: scripts_set_script error_record_def)
    next
      case (executed ev content t0 t1 s')
      with r out True show ?thesis
        by (auto simp: scripts_set_script result_record_def)
    qed
  qed
qed

lemma loop_outputs:
  "\<forall>y r out. map_of (rep_scripts (script_status_report s)) y = Some r \<longrightarrow>
            rec_output r = Some out \<longrightarrow>
            (\<exists>content. files s (output_path y) = Some content \<and> out = first_lines content)
   \<Longrightarrow> \<forall>y r out. map_of (rep_scripts (script_status_report (process_aliases w repository sp xs s))) y = Some r \<longrightarrow>
            rec_output r = Some out \<longrightarrow>
            (\<exists>content. files (process_aliases w repository sp xs s) (output_path y) = Some content
               \<and> out = first_lines content)"
proof (induction xs arbitrary: s)
  case Nil
  then show ?case by simp
next
  case (Cons x xs)
  from process_alias_outputs [OF Cons.prems, of w repository sp x]
  have "\<forall>y r out. map_of (rep_scripts (script_status_report (process_alias w repository sp x s))) y = Some r \<longrightarrow>
            rec_output r = Some out \<longrightarrow>
            (\<exists>content. files (process_alias w repository sp x s) (output_path y) = Some content
               \<and> out = first_lines content)" .
  from Cons.IH [OF this] show ?case by simp
qed

lemma script_stage_outputs:
  assumes "rep_scripts (script_status_report s) = []"
  shows "\<forall>y r out. map_of (rep_scripts (script_status_report (script_stage w a s))) y = Some r \<longrightarrow>
            rec_output r = Some out \<longrightarrow>
            (\<exists>content. files (script_stage w a s) (output_path y) = Some content
               \<and> out = first_lines content)"
proof (cases rule: script_stage_cases [of w a s _])
  case skipped
  with assms show ?thesis by simp
next
  case no_catalog
  with assms show ?thesis by (simp add: download_repository_scripts)
next
  case (looped repository sp)
  let ?s1 = "snd (download_repository w (arg_scripts_repository_url a) s)"
  from assms
  have "\<forall>y r out. map_of (rep_scripts (script_status_report ?s1)) y = Some r \<longrightarrow>
            rec_output r = Some out \<longrightarrow>
            (\<exists>content. files ?s1 (output_path y) = Some content \<and> out = first_lines content)"
    by (simp add: download_repository_scripts)
  from loop_outputs [OF this] looped show ?thesis by simp
qed

lemma pipeline_alias_outputs:
  assumes "map_of (rep_scripts (script_status_report (pipeline w a s))) y = Some r"
    and "rec_output r = Some out"
  shows "\<exists>content. files (pipeline w a s) (output_path y) = Some content \<and> out = first_lines content"
proof -
  let ?s2 = "initialize_report w a s"
  let ?s3 = "script_stage w a ?s2"
  from assms(1) have "map_of (rep_scripts (script_status_report ?s3)) y = Some r"
    by (simp add: pipeline_report run_init_script_scripts)
  moreover
  have "\<forall>y r out. map_of (rep_scripts (script_status_report ?s3)) y = Some r \<longrightarrow>
            rec_output r = Some out \<longrightarrow>
            (\<exists>content. files ?s3 (output_path y) = Some content \<and> out = first_lines content)"
    by (rule script_stage_outputs) (simp add: initialize_report_frame)
  ultimately obtain content
    where "files ?s3 (output_path y) = Some content" "out = first_lines content"
    using assms(2) by blast
  then show ?thesis
    by (simp add: pipeline_files run_init_script_files_other)
qed

lemma pipeline_init_blank:
  assumes "py_strip (arg_init_script a) = []"
  shows "rep_init_script (script_status_report (pipeline w a s)) = None"
    and "runs (pipeline w a s) = runs (script_stage w a (initialize_report w a s))"
  using assms
  by (simp_all add: pipeline_report pipeline_runs run_init_script_blank script_stage_init
      initialize_report_frame)

lemma pipeline_init_record:
  assumes "py_strip (arg_init_script a) \<noteq> []"
  shows "let s3 = script_stage w a (initialize_report w a s);
             res = run_result (subprocess_run w (Suc (tick s3)) ''/tmp/custom_init.sh'' (environ s3));
             content = captured (fst res) (fst (snd res))
         in rep_init_script (script_status_report (pipeline w a s))
              = Some (result_record (snd (snd res)) (first_lines content)
                        (utcnow w (tick s3)) (utcnow w (Suc (Suc (tick s3)))))
            \<and> files (pipeline w a s) ''/tmp/init_script_output.txt'' = Some content
            \<and> runs (pipeline w a s)
                = runs s3 @ [\<lparr>run_label = ForInit, run_tick = Suc (tick s3),
                               run_cmd = ''/tmp/custom_init.sh'', run_env = environ s3\<rparr>]"
  by (simp add: pipeline_report pipeline_files pipeline_runs run_init_script_eq [OF assms] Let_def)

text \<open>
  Claim C7. At the end of the run, the output stored in the record of any alias, and in
  the record of the init script, is the first 20 lines of the output file written for
  that script (fewer when the file is shorter), whatever the script printed: read back
  as lines it has at most 20 of them.
\<close>

theorem report_output_first_20_lines:
  "(\<forall>alias r out.
      map_of (rep_scripts (script_status_report (pipeline w a s))) alias = Some r \<longrightarrow>
      rec_output r = Some out \<longrightarrow>
      (\<exists>content. files (pipeline w a s) (output_path alias) = Some content
         \<and> out = concat (take 20 (readlines content)))
      \<and> length (readlines out) \<le> 20)
   \<and> (\<forall>r out.
      rep_init_script (script_status_report (pipeline w a s)) = Some r \<longrightarrow>
      rec_output r = Some out \<longrightarrow>
      (\<exists>content. files (pipeline w a s) ''/tmp/init_script_output.txt'' = Some content
         \<and> out = concat (take 20 (readlines content)))
      \<and> length (readlines out) \<le> 20)"
proof (intro conjI allI impI)
  fix y r out
  assume "map_of (rep_scripts (script_status_report (pipeline w a s))) y = Some r"
    and "rec_output r = Some out"
  then obtain content
    where c: "files (pipeline w a s) (output_path y) = Some content" "out = first_lines content"
    using pipeline_alias_outputs by blast
  then show "\<exists>content. files (pipeline w a s) (output_path y) = Some content
         \<and> out = concat (take 20 (readlines content))"
    by (simp add: first_lines_def)
  from c show "length (readlines out) \<le> 20" by (simp add: first_lines_bound)
next
  fix r out
  assume r: "rep_init_script (script_status_report (pipeline w a s)) = Some r"
    and out: "rec_output r = Some out"
  have "py_strip (arg_init_script a) \<noteq> []"
    using r pipeline_init_blank(1) [of a w s] by auto
  from pipeline_init_record [OF this, of w s] r out obtain content
    where c: "files (pipeline w a s) ''/tmp/init_script_output.txt'' = Some content"
      "out = first_lines content"
    by (auto simp: result_record_def Let_def)
  then show "\<exists>content. files (pipeline w a s) ''/tmp/init_script_output.txt'' = Some content
         \<and> out = concat (take 20 (readlines content))"
    by (simp add: first_lines_def)
  from c show "length (readlines out) \<le> 20" by (simp add: first_lines_bound)
qed

subsection \<open>The init script\<close>


subsection \<open>A catalog that is not JSON\<close>




subsection \<open>The concrete run, evaluated\<close>







lemma demo_content_a_lines: "length (readlines (captured demo_stdout_a ''warning'')) = 29"
  by code_simp


lemma loop_scripts_other:
  "y \<notin> set xs \<Longrightarrow>
   map_of (rep_scripts (script_status_report (process_aliases w repository sp xs s))) y
     = map_of (rep_scripts (script_status_report s)) y"
  by (induction xs arbitrary: s) (simp_all add: process_alias_scripts_other)

lemma loop_files_other:
  "y \<notin> set xs \<Longrightarrow>
   files (process_aliases w repository sp xs s) (output_path y) = files s (output_path y)"
  by (induction xs arbitrary: s) (simp_all add: process_alias_files_other)

lemma demo_stage_a:
  "script_stage demo_world demo_args s
     = process_aliases demo_world demo_catalog demo_parameters [''b'', ''c'']
         (process_alias demo_world demo_catalog demo_parameters ''a''
            (snd (download_repository demo_world ''http://repo/catalog.json'' s)))"
proof -
  have "download_and_execute_scripts demo_world demo_args s
          = process_aliases demo_world demo_catalog
              (case json_loads_parameters demo_world (arg_script_parameters demo_args) of
                 Some p \<Rightarrow> p | None \<Rightarrow> [])
              (py_split (arg_script_aliases demo_args))
              (snd (download_repository demo_world (arg_scripts_repository_url demo_args) s))"
    by (rule download_and_execute_scripts_loop [where content = demo_catalog_text])
       (simp_all add: demo_args_def demo_world_def demo_catalog_def)
  then show ?thesis
    by (simp add: script_stage_def demo_aliases) (simp add: demo_args_def demo_world_def)
qed

lemma demo_step_a:
  "map_of (rep_scripts (script_status_report
      (process_alias demo_world demo_catalog demo_parameters ''a'' s))) ''a''
     = Some (result_record 0 (first_lines (captured demo_stdout_a ''warning''))
               ''2024-01-01T00:00:00Z'' ''2024-01-01T00:00:00Z'')
   \<and> files (process_alias demo_world demo_catalog demo_parameters ''a'' s) (output_path ''a'')
       = Some (captured demo_stdout_a ''warning'')"
proof -
  have u: "convert_github_url ''https://github.com/o/r/blob/main/a.sh''
             = ''https://raw.githubusercontent.com/o/r/main/a.sh''"
    by (simp add: convert_github_url_def startswith_def)
  have h1: "map_of demo_catalog ''a'' = Some ''https://github.com/o/r/blob/main/a.sh''"
    by (simp add: demo_catalog_def)
  have h2: "convert_github_url ''https://github.com/o/r/blob/main/a.sh'' \<noteq> []"
    unfolding u by simp
  have h3: "urlopen demo_world (Suc (tick s))
        (convert_github_url ''https://github.com/o/r/blob/main/a.sh'')
       = Inr (''#!/bin/sh'' @ [LF] @ ''echo a'')"
    unfolding u by (simp add: demo_world_def)
  have res: "run_result (subprocess_run demo_world t (script_path ''a'' @ x) env)
               = (demo_stdout_a, ''warning'', 0)" for t x env
    by (simp add: run_result_def demo_world_def startswith_def script_path_def)
  have h4: "open_script_file demo_world (Suc (Suc (tick s))) (script_path ''a'') = None"
    by (simp add: demo_world_def script_path_def)
  have "list_all (\<lambda>(n, v). putenv_error n (py_str v) = None) (get_params demo_parameters ''a'')"
    by (simp add: get_params_def demo_parameters_def putenv_error_def NUL_def str_int_def
        str_nat.simps digit_def)
  then have h5: "fst (bind_params demo_world (get_params demo_parameters ''a'') ([], environ s))
      = Inr ([] @ concat (map (\<lambda>(n, v). '' '' @ flag_token demo_world n v) (get_params demo_parameters ''a'')))"
    by (rule bind_params_ok)
  show ?thesis
    unfolding process_alias_executed [OF h1 h2 h3 h4 h5] Let_def res
    by (simp add: scripts_set_script) (simp add: demo_world_def)
qed

lemma demo_pipeline_a:
  "map_of (rep_scripts (script_status_report (pipeline demo_world demo_args (initial_state Map.empty)))) ''a''
     = Some (result_record 0 (first_lines (captured demo_stdout_a ''warning''))
               ''2024-01-01T00:00:00Z'' ''2024-01-01T00:00:00Z'')
   \<and> files (pipeline demo_world demo_args (initial_state Map.empty)) (output_path ''a'')
       = Some (captured demo_stdout_a ''warning'')"
  by (simp add: pipeline_report pipeline_files run_init_script_scripts run_init_script_files_other
      demo_stage_a process_alias_scripts_other process_alias_files_other demo_step_a)


theorem report_output_first_20_lines_witness:
  "(\<exists>r out content.
      map_of (rep_scripts (script_status_report
        (pipeline demo_world demo_args (initial_state Map.empty)))) ''a'' = Some r
      \<and> rec_output r = Some out
      \<and> files (pipeline demo_world demo_args (initial_state Map.empty)) (output_path ''a'')
          = Some content
      \<and> length (readlines content) = 29
      \<and> out = concat (take 20 (readlines content))
      \<and> length (readlines out) \<le> 20)"
proof -
  let ?s = "pipeline demo_world demo_args (initial_state Map.empty)"
  let ?r = "result_record 0 (first_lines (captured demo_stdout_a ''warning''))
               ''2024-01-01T00:00:00Z'' ''2024-01-01T00:00:00Z''"
  have r: "map_of (rep_scripts (script_status_report ?s)) ''a'' = Some ?r"
    and f: "files ?s (output_path ''a'') = Some (captured demo_stdout_a ''warning'')"
    using demo_pipeline_a by simp_all
  have out: "rec_output ?r = Some (first_lines (captured demo_stdout_a ''warning''))"
    by (simp add: result_record_def)
  from report_output_first_20_lines [of demo_world demo_args "initial_state Map.empty"] r out
  obtain content where c: "files ?s (output_path ''a'') = Some content"
      "first_lines (captured demo_stdout_a ''warning'') = concat (take 20 (readlines content))"
      "length (readlines (first_lines (captured demo_stdout_a ''warning''))) \<le> 20"
    by blast
  from c(1) f have "content = captured demo_stdout_a ''warning''" by simp
  with r out c demo_content_a_lines show ?thesis by blast
qed

subsection \<open>The argument-parsing preamble\<close>

lemma name_char_not_eq: "name_char c \<Longrightarrow> c \<noteq> CHR ''=''"
  by (auto simp: name_char_def name_start_def)

lemma shell_identifier_no_eq:
  assumes "shell_identifier n"
  shows "\<forall>c\<in>set n. c \<noteq> CHR ''=''"
proof (cases n)
  case Nil
  then show ?thesis by simp
next
  case (Cons a as)
  with assms have "name_char a" "\<forall>c\<in>set as. name_char c"
    by (simp_all add: list_all_iff name_char_def)
  with Cons show ?thesis by (auto dest: name_char_not_eq)
qed

lemma declare_g_identifier:
  assumes "shell_identifier n" and "\<not> reserved n"
  shows "declare_g (n @ ''='' @ v) vars = Some (vars(n \<mapsto> v))"
proof -
  from shell_identifier_no_eq [OF assms(1)]
  have "takeWhile (\<lambda>c. c \<noteq> CHR ''='') (n @ ''='' @ v) = n"
    by (simp add: takeWhile_append2)
  with assms show ?thesis by (simp add: declare_g_def Let_def)
qed

lemma declare_g_identifier_Cons:
  "shell_identifier n \<Longrightarrow> \<not> reserved n \<Longrightarrow>
   declare_g (n @ CHR ''='' # v) vars = Some (vars(n \<mapsto> v))"
  using declare_g_identifier [of n v vars] by simp

lemma shell_identifier_no_LF:
  assumes "shell_identifier n"
  shows "command_substitution n = n"
proof (cases n rule: rev_cases)
  case Nil
  then show ?thesis by (simp add: command_substitution_def)
next
  case (snoc as a)
  with assms have "name_char a"
    by (cases as) (simp_all add: name_char_def)
  then have "a \<noteq> LF" by (auto simp: name_char_def name_start_def LF_def)
  with snoc show ?thesis by (simp add: command_substitution_def)
qed

text \<open>
  The two-token form binds the variable, when the value can be told from a flag and the
  name is one that bash lets a script assign.
\<close>

lemma preamble_two_tokens:
  assumes "val \<noteq> []" and "\<not> startswith val ''--''"
    and "shell_identifier (upper (py_replace ''-'' ''_'' name))"
    and "\<not> reserved (upper (py_replace ''-'' ''_'' name))"
  shows "\<exists>vars'. parse_parameters [''--'' @ name, val] vars = Some vars'
           \<and> vars' (upper (py_replace ''-'' ''_'' name)) = Some val"
proof -
  have "startswith (''--'' @ name) ''--''" by (simp add: startswith_def)
  with assms(1,2) show ?thesis
    by (simp add: parse_parameters_def Let_def declare_g_identifier_Cons [OF assms(3,4)]
        shell_identifier_no_LF [OF assms(3)])
qed

lemmas preamble_defs = parse_parameters_def startswith_def declare_g_def upper_def upper_char_def
  name_start_def name_char_def command_substitution_def reserved_def bash_special_def
  bash_control_def LF_def Let_def

lemma interpreter_line_bash:
  "\<not> startswith body ''#!'' \<Longrightarrow> interpreter_line (artifact body) = ''#!/bin/bash''"
  by (simp add: artifact_def param_helper_split interpreter_line_def LF_def)

lemma interpreter_line_kept:
  "startswith body ''#!'' \<Longrightarrow> interpreter_line (artifact body) = interpreter_line body"
proof -
  assume sb: "startswith body ''#!''"
  have rest: "join [LF] (drop 1 (split_on LF body))
                = drop (Suc (length (takeWhile (\<lambda>c. c \<noteq> LF) body))) body"
    by (rule join_rest_split_on)
  from sb have "artifact body = takeWhile (\<lambda>c. c \<noteq> LF) body @ [LF] @ param_helper_without_shebang
                        @ drop (Suc (length (takeWhile (\<lambda>c. c \<noteq> LF) body))) body"
    unfolding artifact_def Let_def rest split_on_first by simp
  then show ?thesis
    unfolding interpreter_line_def by (simp add: takeWhile_tail)
qed

lemma preamble_examples:
  "\<exists>vars. run_preamble (artifact ''echo $MODE'') [''a'', ''--mode'', ''fast'', ''b''] Map.empty = Some vars
      \<and> vars ''MODE'' = Some ''fast'' \<and> vars ''PARAM1'' = Some ''a'' \<and> vars ''PARAM2'' = Some ''b''"
  "\<exists>vars. run_preamble (artifact ''echo $MODE'') [''--mode'', ''--fast''] Map.empty = Some vars
      \<and> vars ''MODE'' = Some ''true'' \<and> vars ''FAST'' = Some ''true''"
  "\<exists>vars. run_preamble (artifact ''echo $MODE'') [''--1x'', ''v''] Map.empty = Some vars
      \<and> vars ''1X'' = None"
  "run_preamble (artifact ''echo $MODE'') [''--path'', ''/opt/bin'', ''--mode'', ''fast''] Map.empty = None"
  "run_preamble (artifact (''#!/bin/sh'' @ [LF] @ ''echo $MODE'')) [''--mode'', ''fast''] Map.empty = None"
proof -
  have bash: "interpreter_line (artifact ''echo $MODE'') = ''#!/bin/bash''"
    by (rule interpreter_line_bash) (simp add: startswith_def)
  have k: "str_nat (Suc 0) = ''1''" "str_nat (Suc (Suc 0)) = ''2''" "str_nat 0 = ''0''"
    by (simp_all add: str_nat.simps digit_def)
  show "\<exists>vars. run_preamble (artifact ''echo $MODE'') [''a'', ''--mode'', ''fast'', ''b''] Map.empty = Some vars
      \<and> vars ''MODE'' = Some ''fast'' \<and> vars ''PARAM1'' = Some ''a'' \<and> vars ''PARAM2'' = Some ''b''"
    unfolding run_preamble_def bash by (simp add: preamble_defs k)
  show "\<exists>vars. run_preamble (artifact ''echo $MODE'') [''--mode'', ''--fast''] Map.empty = Some vars
      \<and> vars ''MODE'' = Some ''true'' \<and> vars ''FAST'' = Some ''true''"
    unfolding run_preamble_def bash by (simp add: preamble_defs)
  show "\<exists>vars. run_preamble (artifact ''echo $MODE'') [''--1x'', ''v''] Map.empty = Some vars
      \<and> vars ''1X'' = None"
    unfolding run_preamble_def bash by (simp add: preamble_defs)
  show "run_preamble (artifact ''echo $MODE'') [''--path'', ''/opt/bin'', ''--mode'', ''fast''] Map.empty = None"
    unfolding run_preamble_def bash by (simp add: preamble_defs)
  have "interpreter_line (artifact (''#!/bin/sh'' @ [LF] @ ''echo $MODE'')) = ''#!/bin/sh''"
    by (subst interpreter_line_kept) (simp_all add: startswith_def interpreter_line_def LF_def)
  then show "run_preamble (artifact (''#!/bin/sh'' @ [LF] @ ''echo $MODE'')) [''--mode'', ''fast''] Map.empty = None"
    by (simp add: run_preamble_def)
qed

text \<open>
  Claim C2. A body without an interpreter line becomes an artifact that bash runs. For the
  parameter \<^verbatim>\<open>retry_count\<close> with value 3, \<^verbatim>\<open>execute_script\<close> puts the token \<^verbatim>\<open>--retry-count="3"\<close>
  on the command line, which reaches the artifact as the single argument \<^verbatim>\<open>--retry-count=3\<close>.
  The preamble has no branch that cuts a flag at \<^verbatim>\<open>=\<close>: it takes the argument for a flag
  without value, makes the name \<^verbatim>\<open>RETRY_COUNT=3\<close> of all the text after \<^verbatim>\<open>--\<close> and declares the
  word \<^verbatim>\<open>RETRY_COUNT=3=true\<close>, so the variable \<^verbatim>\<open>RETRY_COUNT\<close> receives \<^verbatim>\<open>3=true\<close> and not \<^verbatim>\<open>3\<close>.
\<close>

theorem preamble_single_token_flag:
  \<open>flag_token demo_world ''retry_count'' (SInt 3) = ''--retry-count="3"''
   \<and> interpreter_line (artifact ''echo $RETRY_COUNT'') = ''#!/bin/bash''
   \<and> (\<exists>vars. run_preamble (artifact ''echo $RETRY_COUNT'') [''--retry-count=3''] Map.empty = Some vars
         \<and> vars ''RETRY_COUNT'' = Some ''3=true''
         \<and> vars ''param_name'' = Some ''RETRY_COUNT=3'')\<close>
proof -
  have tok: \<open>flag_token demo_world ''retry_count'' (SInt 3) = ''--retry-count="3"''\<close>
    by (simp add: flag_token_def kebab_def lower_def ascii_def lower_char_def startswith_def
        str_int_def str_nat.simps digit_def)
  have bash: "interpreter_line (artifact ''echo $RETRY_COUNT'') = ''#!/bin/bash''"
    by (rule interpreter_line_bash) (simp add: startswith_def)
  have "\<exists>vars. run_preamble (artifact ''echo $RETRY_COUNT'') [''--retry-count=3''] Map.empty = Some vars
         \<and> vars ''RETRY_COUNT'' = Some ''3=true''
         \<and> vars ''param_name'' = Some ''RETRY_COUNT=3''"
    unfolding run_preamble_def bash by (simp add: preamble_defs)
  with tok bash show ?thesis by blast
qed

subsection \<open>The module as a whole\<close>

lemma main_completed:
  "startup w (initial_state env) = Some s \<Longrightarrow> main w a env = Completed (pipeline w a s)"
  by (simp add: main_def)

lemma main_exit:
  "startup w (initial_state env) = None \<Longrightarrow> main w a env = SysExit 1"
  by (simp add: main_def)

end
